theory Spec2Isabelle
  imports Main
begin

section \<open>Python values, errors and string helpers\<close>

text \<open>
  A model of the two Python clients of the search server: the newer one in
  \<open>xapiand/__init__.py\<close> and the legacy one in \<open>haystack/client.py\<close>. Both are
  Python 2 code: strings are byte strings (here \<open>string\<close>), iterators have a
  \<open>next\<close> method. The transport library and the file system are parameters of the
  model (the record \<open>world\<close>); the JSON decoder is described as far as the texts of the
  server need it.

  Values that travel through the client: query-parameter values, decoded JSON records and
  attribute values. Python's \<open>None\<close> is \<open>JNull\<close>, a \<open>dict\<close> is an association list with
  distinct keys kept in insertion order.
\<close>

datatype json =
    JNull
  | JBool bool
  | JInt int
  | JStr string
  | JArr "json list"
  | JObj "(string \<times> json) list"

text \<open>
  Exceptions of the two clients. \<open>HTTPError n\<close> is the error of
  \<open>Response.raise_for_status\<close>, which carries the response and so its status code \<open>n\<close>;
  \<open>HTTPErrorMsg m\<close> is the legacy client's \<open>HTTPError("Return code is %s" % status)\<close>,
  which carries only the message \<open>m\<close>. \<open>Transport\<close> stands for the timeouts and connection
  errors of the transport library. \<open>Unmodelled\<close> marks the few library paths this
  development does not describe.
\<close>

datatype error =
    DoesNotExist
  | HTTPError int
  | HTTPErrorMsg string
  | KeyError string
  | ValueError
  | TypeError
  | AttributeError
  | IndexError
  | IOError
  | StopIteration
  | Transport string
  | Unmodelled

subsection \<open>Dictionaries\<close>

fun dict_set :: "('k \<times> 'v) list \<Rightarrow> 'k \<Rightarrow> 'v \<Rightarrow> ('k \<times> 'v) list" where
  "dict_set [] k v = [(k, v)]"
| "dict_set ((k', v') # d) k v =
     (if k' = k then (k, v) # d else (k', v') # dict_set d k v)"

text \<open>\<open>dict(pairs)\<close>: later pairs overwrite earlier ones with the same key.\<close>

definition dict_of_pairs :: "('k \<times> 'v) list \<Rightarrow> ('k \<times> 'v) list" where
  "dict_of_pairs ps = foldl (\<lambda>d (k, v). dict_set d k v) [] ps"

text \<open>\<open>d.get(k, default)\<close>.\<close>

definition dict_get :: "('k \<times> 'v) list \<Rightarrow> 'k \<Rightarrow> 'v \<Rightarrow> 'v" where
  "dict_get d k dflt = (case map_of d k of None \<Rightarrow> dflt | Some v \<Rightarrow> v)"

subsection \<open>Strings\<close>

definition startswith :: "string \<Rightarrow> string \<Rightarrow> bool" where
  "startswith s p = (take (length p) s = p)"

definition endswith :: "string \<Rightarrow> string \<Rightarrow> bool" where
  "endswith s p = startswith (rev s) (rev p)"

text \<open>\<open>sub in s\<close> for strings.\<close>

fun contains :: "string \<Rightarrow> string \<Rightarrow> bool" where
  "contains [] sub = (sub = [])"
| "contains (c # cs) sub = (startswith (c # cs) sub \<or> contains cs sub)"

text \<open>The characters \<open>str.strip()\<close> removes: space, tab, newline, CR, VT, FF.\<close>

definition is_space :: "char \<Rightarrow> bool" where
  "is_space c =
     (c = CHR '' '' \<or> c = CHR 0x09 \<or> c = CHR 0x0A \<or> c = CHR 0x0B \<or> c = CHR 0x0C \<or> c = CHR 0x0D)"

definition lstrip :: "string \<Rightarrow> string" where
  "lstrip s = dropWhile is_space s"

definition rstrip :: "string \<Rightarrow> string" where
  "rstrip s = rev (dropWhile is_space (rev s))"

text \<open>\<open>s.rstrip(',')\<close>.\<close>

definition rstrip_comma :: "string \<Rightarrow> string" where
  "rstrip_comma s = rev (dropWhile (\<lambda>c. c = CHR '','') (rev s))"

text \<open>\<open>k.replace('__', '.')\<close>: left to right, without overlaps.\<close>

fun replace_dunder :: "string \<Rightarrow> string" where
  "replace_dunder (a # b # cs) =
     (if a = CHR ''_'' \<and> b = CHR ''_'' then CHR ''.'' # replace_dunder cs
      else a # replace_dunder (b # cs))"
| "replace_dunder cs = cs"

text \<open>\<open>k.replace('-', '_')\<close>.\<close>

definition replace_hyphen :: "string \<Rightarrow> string" where
  "replace_hyphen s = map (\<lambda>c. if c = CHR ''-'' then CHR ''_'' else c) s"

text \<open>\<open>s.partition(':')\<close>, of which the source uses the first and the last component.\<close>

definition partition_colon :: "string \<Rightarrow> string \<times> string" where
  "partition_colon s =
     (takeWhile (\<lambda>c. c \<noteq> CHR '':'') s, drop 1 (dropWhile (\<lambda>c. c \<noteq> CHR '':'') s))"

text \<open>\<open>sep.join(xs)\<close> with \<open>sep = ','\<close>.\<close>

fun join_comma :: "string list \<Rightarrow> string" where
  "join_comma [] = []"
| "join_comma [x] = x"
| "join_comma (x # y # ys) = x @ '','' @ join_comma (y # ys)"

text \<open>
  Decimal rendering of an integer, as \<open>'{}'.format(n)\<close> and \<open>'%s' % n\<close> give it.
  \<open>digit_char\<close> is only applied to numbers below ten.
\<close>

definition digit_char :: "nat \<Rightarrow> char" where
  "digit_char d = ''0123456789'' ! d"

fun digits_of_nat :: "nat \<Rightarrow> string" where
  "digits_of_nat n =
     (if n < 10 then [digit_char n] else digits_of_nat (n div 10) @ [digit_char (n mod 10)])"

declare digits_of_nat.simps [simp del]

definition str_of_int :: "int \<Rightarrow> string" where
  "str_of_int i = (if i < 0 then CHR ''-'' # digits_of_nat (nat (- i)) else digits_of_nat (nat i))"

section \<open>The newer client: configuration and URL builder\<close>

text \<open>
  A port is an integer (the default \<open>8880\<close>) or the text after the colon of a
  \<open>host:port\<close> string. \<open>None\<close> of Python is \<open>None\<close> here.
\<close>

datatype port = PInt int | PStr string

fun port_truthy :: "port option \<Rightarrow> bool" where
  "port_truthy None = False"
| "port_truthy (Some (PInt n)) = (n \<noteq> 0)"
| "port_truthy (Some (PStr s)) = (s \<noteq> [])"

fun format_port :: "port option \<Rightarrow> string" where
  "format_port None = ''None''"
| "format_port (Some (PInt n)) = str_of_int n"
| "format_port (Some (PStr s)) = s"

fun str_truthy :: "string option \<Rightarrow> bool" where
  "str_truthy None = False"
| "str_truthy (Some s) = (s \<noteq> [])"

fun format_str :: "string option \<Rightarrow> string" where
  "format_str None = ''None''"
| "format_str (Some s) = s"

text \<open>\<open>if ip and ':' in ip: ip, _, port = ip.partition(':')\<close>, shared by the constructors
  and the URL builders.\<close>

definition split_host :: "string option \<Rightarrow> port option \<Rightarrow> string option \<times> port option" where
  "split_host ip port =
     (case ip of
        None \<Rightarrow> (ip, port)
      | Some s \<Rightarrow>
          if s \<noteq> [] \<and> CHR '':'' \<in> set s
          then (Some (fst (partition_colon s)), Some (PStr (snd (partition_colon s))))
          else (ip, port))"

record client =
  ip :: "string option"
  port :: "port option"
  commit :: bool
  prefix :: "string option"

text \<open>\<open>Xapiand.__init__(ip='127.0.0.1', port=8880, commit=False, prefix=None)\<close>.\<close>

definition Xapiand :: "string option \<Rightarrow> port option \<Rightarrow> bool \<Rightarrow> string option \<Rightarrow> client" where
  "Xapiand ip0 port0 commit0 prefix0 =
     (let (ip1, port1) = split_host ip0 port0
      in \<lparr>ip = ip1, port = port1, commit = commit0, prefix = prefix0\<rparr>)"

definition XAPIAND_HOST :: string where "XAPIAND_HOST = ''127.0.0.1''"
definition XAPIAND_PORT :: int where "XAPIAND_PORT = 8880"
definition XAPIAND_COMMIT :: bool where "XAPIAND_COMMIT = False"
definition XAPIAND_LIVE_PREFIX :: string where "XAPIAND_LIVE_PREFIX = ''live''"
definition XAPIAND_SANDBOX_PREFIX :: string where "XAPIAND_SANDBOX_PREFIX = ''sandbox''"

definition live :: client where
  "live = Xapiand (Some XAPIAND_HOST) (Some (PInt XAPIAND_PORT)) XAPIAND_COMMIT
            (Some XAPIAND_LIVE_PREFIX)"

definition sandbox :: client where
  "sandbox = Xapiand (Some XAPIAND_HOST) (Some (PInt XAPIAND_PORT)) XAPIAND_COMMIT
               (Some XAPIAND_SANDBOX_PREFIX)"

text \<open>The \<open>index\<close> argument: one name, or a tuple or list of names.\<close>

datatype index_arg = One string | Many "string list"

fun index_names :: "index_arg \<Rightarrow> string list" where
  "index_names (One i) = [i]"
| "index_names (Many is) = is"

text \<open>
  The first half of \<open>_build_url\<close>: \<open>'http://{}/{}{}/'\<close> filled with host, the joined
  index names and the node name.
\<close>

definition url_host :: "client \<Rightarrow> string option \<Rightarrow> port option \<Rightarrow> string" where
  "url_host c ip0 port0 =
     (let (ip1, port1) = split_host ip0 port0;
          ip2 = (if \<not> str_truthy ip1 then ip c else ip1);
          port2 = (if \<not> port_truthy port1 then port c else port1)
      in format_str ip2 @ '':'' @ format_port port2)"

definition url_index :: "client \<Rightarrow> index_arg \<Rightarrow> string" where
  "url_index c index =
     (let pre = (if str_truthy (prefix c) then format_str (prefix c) @ ''/'' else '''')
      in join_comma (map (\<lambda>i. pre @ i) (index_names index)))"

definition url_nodename :: "string option \<Rightarrow> string" where
  "url_nodename nodename = (if str_truthy nodename then ''@'' @ format_str nodename else '''')"

text \<open>The path tail of \<open>_build_url\<close> (lines 124 to 129).\<close>

definition url_tail :: "string \<Rightarrow> string option \<Rightarrow> string" where
  "url_tail action_request docid =
     (if docid = None \<and> action_request \<noteq> ''post'' then ''_'' @ action_request @ ''/''
      else if action_request = ''post'' then ''''
      else format_str docid)"

definition xapiand_build_url ::
  "client \<Rightarrow> string \<Rightarrow> index_arg \<Rightarrow> string option \<Rightarrow> port option \<Rightarrow> string option \<Rightarrow>
   string option \<Rightarrow> string" where
  "xapiand_build_url c action_request index ip0 port0 nodename docid =
     ''http://'' @ url_host c ip0 port0 @ ''/'' @ url_index c index @ url_nodename nodename
       @ ''/'' @ url_tail action_request docid"

section \<open>The JSON decoder used by the clients\<close>

text \<open>
  \<open>json.loads\<close> belongs to Python's standard library. It is described here for the JSON
  texts the server sends: objects, arrays, strings without escape sequences, integers and
  the three literals. A text outside this fragment (a backslash escape, a fraction or an
  exponent, \<open>NaN\<close>, \<open>Infinity\<close>) gives \<open>Unmodelled\<close>; every other malformed text gives
  \<open>ValueError\<close>, as the library raises it. The first argument of the three parsing
  functions bounds the depth of their recursion; \<open>json_loads\<close> starts with more than
  twice the length of the text, which no text can use up (lemma \<open>parse_value_enough\<close>).
\<close>

definition is_json_ws :: "char \<Rightarrow> bool" where
  "is_json_ws c = (c = CHR '' '' \<or> c = CHR 0x09 \<or> c = CHR 0x0A \<or> c = CHR 0x0D)"

definition skip_ws :: "string \<Rightarrow> string" where
  "skip_ws s = dropWhile is_json_ws s"

definition is_digit :: "char \<Rightarrow> bool" where
  "is_digit c = (c \<in> set ''0123456789'')"

definition digit_val :: "char \<Rightarrow> nat" where
  "digit_val c = length (takeWhile (\<lambda>d. d \<noteq> c) ''0123456789'')"

definition nat_of_digits :: "string \<Rightarrow> nat" where
  "nat_of_digits ds = foldl (\<lambda>n c. 10 * n + digit_val c) 0 ds"

text \<open>A control character (below \<open>0x20\<close>) is not allowed inside a JSON string.\<close>

fun is_control :: "char \<Rightarrow> bool" where
  "is_control (Char b0 b1 b2 b3 b4 b5 b6 b7) = (\<not> b5 \<and> \<not> b6 \<and> \<not> b7)"

text \<open>The rest of a string literal after its opening quote.\<close>

fun scan_string :: "string \<Rightarrow> string \<Rightarrow> error + (string \<times> string)" where
  "scan_string acc [] = Inl ValueError"
| "scan_string acc (c # cs) =
     (if c = CHR 0x22 then Inr (rev acc, cs)
      else if c = CHR 0x5C then Inl Unmodelled
      else if is_control c then Inl ValueError
      else scan_string (c # acc) cs)"

text \<open>An integer literal: \<open>-?(0|[1-9][0-9]*)\<close>.\<close>

definition scan_int :: "string \<Rightarrow> error + (int \<times> string)" where
  "scan_int s =
     (let neg = startswith s ''-'';
          s1 = (if neg then drop 1 s else s);
          ds = (if startswith s1 ''0'' then ''0'' else takeWhile is_digit s1);
          rest = drop (length ds) s1
      in if ds = [] then (if startswith s1 ''Infinity'' then Inl Unmodelled else Inl ValueError)
         else if startswith rest ''.'' \<or> startswith rest ''e'' \<or> startswith rest ''E''
         then Inl Unmodelled
         else Inr (if neg then - int (nat_of_digits ds) else int (nat_of_digits ds), rest))"

fun parse_value :: "nat \<Rightarrow> string \<Rightarrow> error + (json \<times> string)"
  and parse_members :: "nat \<Rightarrow> (string \<times> json) list \<Rightarrow> string \<Rightarrow> error + (json \<times> string)"
  and parse_elements :: "nat \<Rightarrow> json list \<Rightarrow> string \<Rightarrow> error + (json \<times> string)" where
  "parse_value 0 s = Inl Unmodelled"
| "parse_value (Suc n) s =
     (case skip_ws s of
        [] \<Rightarrow> Inl ValueError
      | c # cs \<Rightarrow>
          if c = CHR ''{'' then
            (if startswith (skip_ws cs) ''}'' then Inr (JObj [], drop 1 (skip_ws cs))
             else parse_members n [] cs)
          else if c = CHR ''['' then
            (if startswith (skip_ws cs) '']'' then Inr (JArr [], drop 1 (skip_ws cs))
             else parse_elements n [] cs)
          else if c = CHR 0x22 then
            (case scan_string [] cs of
               Inl e \<Rightarrow> Inl e
             | Inr (str, r) \<Rightarrow> Inr (JStr str, r))
          else if c = CHR ''-'' \<or> is_digit c then
            (case scan_int (c # cs) of
               Inl e \<Rightarrow> Inl e
             | Inr (i, r) \<Rightarrow> Inr (JInt i, r))
          else if startswith (c # cs) ''true'' then Inr (JBool True, drop 4 (c # cs))
          else if startswith (c # cs) ''false'' then Inr (JBool False, drop 5 (c # cs))
          else if startswith (c # cs) ''null'' then Inr (JNull, drop 4 (c # cs))
          else if startswith (c # cs) ''NaN'' \<or> startswith (c # cs) ''Infinity''
          then Inl Unmodelled
          else Inl ValueError)"
| "parse_members 0 acc s = Inl Unmodelled"
| "parse_members (Suc n) acc s =
     (case skip_ws s of
        [] \<Rightarrow> Inl ValueError
      | c # cs \<Rightarrow>
          if c \<noteq> CHR 0x22 then Inl ValueError
          else
            (case scan_string [] cs of
               Inl e \<Rightarrow> Inl e
             | Inr (k, r1) \<Rightarrow>
                 (case skip_ws r1 of
                    [] \<Rightarrow> Inl ValueError
                  | c2 # r2 \<Rightarrow>
                      if c2 \<noteq> CHR '':'' then Inl ValueError
                      else
                        (case parse_value n r2 of
                           Inl e \<Rightarrow> Inl e
                         | Inr (v, r3) \<Rightarrow>
                             (case skip_ws r3 of
                                [] \<Rightarrow> Inl ValueError
                              | c4 # r4 \<Rightarrow>
                                  if c4 = CHR '','' then parse_members n (dict_set acc k v) r4
                                  else if c4 = CHR ''}'' then Inr (JObj (dict_set acc k v), r4)
                                  else Inl ValueError)))))"
| "parse_elements 0 acc s = Inl Unmodelled"
| "parse_elements (Suc n) acc s =
     (case parse_value n s of
        Inl e \<Rightarrow> Inl e
      | Inr (v, r1) \<Rightarrow>
          (case skip_ws r1 of
             [] \<Rightarrow> Inl ValueError
           | c # r2 \<Rightarrow>
               if c = CHR '','' then parse_elements n (acc @ [v]) r2
               else if c = CHR '']'' then Inr (JArr (acc @ [v]), r2)
               else Inl ValueError))"

definition json_loads :: "string \<Rightarrow> error + json" where
  "json_loads s =
     (case parse_value (Suc (length s + length s)) s of
        Inl e \<Rightarrow> Inl e
      | Inr (v, r) \<Rightarrow> if skip_ws r = [] then Inr v else Inl ValueError)"

section \<open>The newer client: result wrappers\<close>

text \<open>
  \<open>dict(x)\<close> of a decoded value. A JSON object is copied; a number, a boolean and
  \<open>None\<close> are not iterable (\<open>TypeError\<close>); a non-empty string has elements of length
  one where pairs are required (\<open>ValueError\<close>); an empty string or array gives the empty
  dictionary. Python also accepts a non-empty array of pairs, whose keys need not be
  strings: that case is left out.
\<close>

fun py_dict :: "json \<Rightarrow> error + (string \<times> json) list" where
  "py_dict (JObj kvs) = Inr kvs"
| "py_dict JNull = Inl TypeError"
| "py_dict (JBool b) = Inl TypeError"
| "py_dict (JInt i) = Inl TypeError"
| "py_dict (JStr s) = (if s = [] then Inr [] else Inl ValueError)"
| "py_dict (JArr xs) = (if xs = [] then Inr [] else Inl Unmodelled)"

text \<open>
  \<open>class Result(NestedDict)\<close>, with \<open>NestedDict = dict\<close> (the fallback of the import):
  the entries that stay in the dictionary, and the attributes set with \<open>setattr\<close>.
\<close>

record result =
  entries :: "(string \<times> json) list"
  attrs :: "(string \<times> json) list"

text \<open>
  The loop of \<open>Result.__init__\<close>: \<open>for k in list(self): if k[0] == '_':
  setattr(self, k, self.pop(k))\<close>. The empty key has no \<open>k[0]\<close>.
\<close>

fun lift_keys :: "(string \<times> json) list \<Rightarrow> result \<Rightarrow> error + result" where
  "lift_keys [] r = Inr r"
| "lift_keys ((k, v) # kvs) r =
     (if k = [] then Inl IndexError
      else if hd k = CHR ''_''
      then lift_keys kvs
             \<lparr>entries = filter (\<lambda>kv. fst kv \<noteq> k) (entries r), attrs = dict_set (attrs r) k v\<rparr>
      else lift_keys kvs r)"

definition Result :: "json \<Rightarrow> error + result" where
  "Result x =
     (case py_dict x of
        Inl e \<Rightarrow> Inl e
      | Inr kvs \<Rightarrow> lift_keys kvs \<lparr>entries = kvs, attrs = []\<rparr>)"

subsection \<open>The generator of decoded records\<close>

text \<open>
  The generator \<open>results(lines, size=100)\<close> of \<open>_send_request\<close>, as the state it is
  suspended in: not yet started on the line iterator, inside the \<open>for\<close> loop with the
  rest of \<open>feed.cache\<close> and the rest of the line iterator, or finished (returned, or
  ended by an exception).
\<close>

datatype gen = Fresh "string list" | Running "string list" "string list" | Finished

datatype 'a step = Yield 'a | Raise error | Stop

text \<open>\<open>feed()\<close>: the next \<open>size = 100\<close> lines, without the empty ones.\<close>

definition feed :: "string list \<Rightarrow> string list \<times> string list" where
  "feed ls = (filter (\<lambda>l. l \<noteq> []) (take 100 ls), drop 100 ls)"

text \<open>
  What the body of the \<open>for\<close> loop does with one line of a JSON response: \<open>None\<close> for
  \<open>continue\<close>, otherwise the text handed to \<open>json.loads\<close>.
\<close>

definition fix_line :: "string \<Rightarrow> string option" where
  "fix_line line =
     (if startswith (lstrip line) '']'' then None
      else if endswith (rstrip line) ''['' then Some (line @ '']}}'')
      else Some (rstrip_comma (rstrip line)))"

fun gen_lines :: "gen \<Rightarrow> nat" where
  "gen_lines (Fresh ls) = Suc (length ls)"
| "gen_lines (Running c ls) = length ls"
| "gen_lines Finished = 0"

fun gen_cache :: "gen \<Rightarrow> nat" where
  "gen_cache (Running c ls) = Suc (length c)"
| "gen_cache g = 0"

text \<open>
  \<open>next(results)\<close>: runs the generator to its next \<open>yield\<close>. A raw line of a response
  that is not JSON is a string value.
\<close>

function results_next :: "bool \<Rightarrow> gen \<Rightarrow> json step \<times> gen" where
  "results_next is_json Finished = (Stop, Finished)"
| "results_next is_json (Fresh ls) =
     (if fst (feed ls) = [] then (Stop, Finished)
      else results_next is_json (Running (fst (feed ls)) (snd (feed ls))))"
| "results_next is_json (Running [] ls) =
     (if fst (feed ls) = [] then (Stop, Finished)
      else results_next is_json (Running (fst (feed ls)) (snd (feed ls))))"
| "results_next is_json (Running (line # c) ls) =
     (if is_json then
        (case fix_line line of
           None \<Rightarrow> results_next is_json (Running c ls)
         | Some text \<Rightarrow>
             (case json_loads text of
                Inl e \<Rightarrow> (Raise e, Finished)
              | Inr v \<Rightarrow> (Yield v, Running c ls)))
      else (Yield (JStr line), Running c ls))"
  by pat_completeness auto

termination results_next
proof -
  have feed_shrinks: "fst (feed ls) \<noteq> [] \<Longrightarrow> length (snd (feed ls)) < length ls" for ls
    by (cases ls) (auto simp: feed_def)
  show ?thesis
    by (relation "measures [\<lambda>(j, g). gen_lines g, \<lambda>(j, g). gen_cache g]")
       (auto simp: feed_shrinks less_Suc_eq_le intro: less_imp_le)
qed

subsection \<open>The result set\<close>

text \<open>
  What \<open>Results\<close> iterates over: the generator of a streamed response (with the
  \<open>is_json\<close> flag it closes over), or the one-element list of a response that is not
  streamed.
\<close>

datatype source = Generator bool gen | Listed "json list"

text \<open>
  \<open>class Results\<close>: the attributes set from the metadata record and from the
  response headers, the \<open>aggregations\<close> attribute and the \<open>generator\<close> attribute.
  Header and metadata names are taken not to clash with the names of these two
  attributes and of the methods of the class.
\<close>

record results =
  r_attrs :: "(string \<times> json) list"
  aggregations :: "(string \<times> json) list"
  generator :: source

text \<open>\<open>for k, v in meta.get('_query', {}).items(): if k[0] == '_': setattr(self, k, v)\<close>.\<close>

fun lift_query :: "(string \<times> json) list \<Rightarrow> (string \<times> json) list \<Rightarrow> error + (string \<times> json) list" where
  "lift_query [] a = Inr a"
| "lift_query ((k, v) # kvs) a =
     (if k = [] then Inl IndexError
      else if hd k = CHR ''_'' then lift_query kvs (dict_set a k v)
      else lift_query kvs a)"

text \<open>\<open>Results.__init__(self, meta, generator)\<close>; \<open>meta.get\<close> and \<open>.items()\<close> exist on
  dictionaries only.\<close>

definition Results :: "json \<Rightarrow> source \<Rightarrow> error + results" where
  "Results meta src =
     (case meta of
        JObj m \<Rightarrow>
          (case dict_get m ''_query'' (JObj []) of
             JObj q \<Rightarrow>
               (case lift_query q [] of
                  Inl e \<Rightarrow> Inl e
                | Inr a \<Rightarrow>
                    (case py_dict (dict_get m ''_aggregations'' (JObj [])) of
                       Inl e \<Rightarrow> Inl e
                     | Inr ag \<Rightarrow> Inr \<lparr>r_attrs = a, aggregations = ag, generator = src\<rparr>))
           | _ \<Rightarrow> Inl AttributeError)
      | _ \<Rightarrow> Inl AttributeError)"

text \<open>\<open>int(s)\<close> of a string: surrounding blanks, an optional sign, decimal digits.\<close>

definition py_int_str :: "string \<Rightarrow> error + int" where
  "py_int_str s =
     (let t = lstrip (rstrip s);
          neg = startswith t ''-'';
          ds = (if neg \<or> startswith t ''+'' then drop 1 t else t)
      in if ds = [] \<or> \<not> list_all is_digit ds then Inl ValueError
         else Inr (if neg then - int (nat_of_digits ds) else int (nat_of_digits ds)))"

fun py_int :: "json \<Rightarrow> error + int" where
  "py_int (JInt i) = Inr i"
| "py_int (JBool b) = Inr (if b then 1 else 0)"
| "py_int (JStr s) = py_int_str s"
| "py_int JNull = Inl TypeError"
| "py_int (JArr xs) = Inl TypeError"
| "py_int (JObj kvs) = Inl TypeError"

text \<open>\<open>Results.__len__\<close>: \<open>int(getattr(self, 'total_count', 0))\<close>.\<close>

definition Results_len :: "results \<Rightarrow> error + int" where
  "Results_len r = py_int (dict_get (r_attrs r) ''total_count'' (JInt 0))"

text \<open>
  \<open>Results.next\<close>: \<open>Result(next(iter(self.generator)))\<close>. \<open>iter\<close> of a generator is
  the generator itself, which moves on; \<open>iter\<close> of a list is a new iterator at its first
  element, and the list stays as it is.
\<close>

definition Results_next :: "results \<Rightarrow> (error + result) \<times> results" where
  "Results_next r =
     (case generator r of
        Generator is_json g \<Rightarrow>
          (case results_next is_json g of
             (Yield v, g') \<Rightarrow> (Result v, r\<lparr>generator := Generator is_json g'\<rparr>)
           | (Raise e, g') \<Rightarrow> (Inl e, r\<lparr>generator := Generator is_json g'\<rparr>)
           | (Stop, g') \<Rightarrow> (Inl StopIteration, r\<lparr>generator := Generator is_json g'\<rparr>))
      | Listed xs \<Rightarrow>
          (case xs of
             [] \<Rightarrow> (Inl StopIteration, r)
           | x # _ \<Rightarrow> (Result x, r)))"


section \<open>The newer client: requests and responses\<close>

datatype verb = GET | DELETE | HEAD | POST | PUT | PATCH

text \<open>The dispatch table \<open>Xapiand._methods\<close>: verb, streamed, response key.\<close>

definition xapiand_methods :: "(string \<times> verb \<times> bool \<times> string) list" where
  "xapiand_methods =
     [(''search'', GET, True, ''results''),
      (''facets'', GET, True, ''facets''),
      (''stats'', GET, False, ''result''),
      (''get'', GET, False, ''result''),
      (''delete'', DELETE, False, ''result''),
      (''head'', HEAD, False, ''result''),
      (''post'', POST, False, ''result''),
      (''put'', PUT, False, ''result''),
      (''patch'', PATCH, False, ''result'')]"

text \<open>The \<open>body\<close> argument: a dictionary or a string (a path, or text to send).\<close>

datatype body = BodyDict "(string \<times> json) list" | BodyStr string

text \<open>What is sent: \<open>json.dumps(body)\<close>, the file opened from a path, or the string.\<close>

datatype payload = Dumped "(string \<times> json) list" | OpenFile string | Raw string

text \<open>
  The keyword arguments a caller can give. \<open>None\<close> is an argument left out (for
  \<open>kw_default\<close>: the sentinel \<open>NA\<close>); \<open>kw_stream = Some None\<close> is an explicit
  \<open>stream=None\<close>, which differs from leaving \<open>stream\<close> out; \<open>kw_extra\<close> are the
  options handed on to the transport as they are.
\<close>

record 'd kwargs =
  kw_ip :: "string option"
  kw_port :: "port option"
  kw_nodename :: "string option"
  kw_id :: "string option"
  kw_body :: "body option"
  kw_default :: "'d option"
  kw_params :: "(string \<times> json) list option"
  kw_stream :: "bool option option"
  kw_extra :: "(string \<times> json) list"

definition no_kwargs :: "'d kwargs" where
  "no_kwargs =
     \<lparr>kw_ip = None, kw_port = None, kw_nodename = None, kw_id = None, kw_body = None,
      kw_default = None, kw_params = None, kw_stream = None, kw_extra = []\<rparr>"

text \<open>The call \<open>method(url, body, **kwargs)\<close> or \<open>method(url, **kwargs)\<close>.\<close>

record request =
  rq_verb :: verb
  rq_url :: string
  rq_body :: "payload option"
  rq_params :: "(string \<times> json) list option"
  rq_stream :: "bool option"
  rq_extra :: "(string \<times> json) list"

text \<open>
  A response of the transport: \<open>iter_lines\<close> is the sequence of chunks that
  \<open>res.iter_lines(delimiter='\n\n')\<close> produces (for the legacy client: the lines of
  \<open>res.iter_lines()\<close>); header names are distinct up to case.
\<close>

record response =
  status_code :: int
  headers :: "(string \<times> string) list"
  content :: string
  iter_lines :: "string list"

text \<open>The outside world: the file system for the body, the server for the call.\<close>

record world =
  isfile :: "string \<Rightarrow> bool"
  readable :: "string \<Rightarrow> bool"
  http :: "request \<Rightarrow> error + response"

text \<open>The query-parameter transform (line 151 of the newer client, line 100 of the legacy
  one).\<close>

fun coerce_bool :: "json \<Rightarrow> json" where
  "coerce_bool (JBool b) = JInt (if b then 1 else 0)"
| "coerce_bool v = v"

definition transform_params :: "(string \<times> json) list \<Rightarrow> (string \<times> json) list" where
  "transform_params params =
     dict_of_pairs (map (\<lambda>(k, v). (replace_dunder k, coerce_bool v)) params)"

definition encode_body :: "world \<Rightarrow> body option \<Rightarrow> error + payload option" where
  "encode_body w b =
     (case b of
        None \<Rightarrow> Inr None
      | Some (BodyDict d) \<Rightarrow> Inr (Some (Dumped d))
      | Some (BodyStr s) \<Rightarrow>
          if isfile w s then (if readable w s then Inr (Some (OpenFile s)) else Inl IOError)
          else Inr (Some (Raw s)))"

text \<open>Lines 146 to 164 of \<open>_send_request\<close>: the request that goes out.\<close>

definition xapiand_request ::
  "world \<Rightarrow> client \<Rightarrow> string \<Rightarrow> index_arg \<Rightarrow> 'd kwargs \<Rightarrow> error + request" where
  "xapiand_request w c action_request index kw =
     (case map_of xapiand_methods action_request of
        None \<Rightarrow> Inl (KeyError action_request)
      | Some (method, stream, key) \<Rightarrow>
          (case encode_body w (kw_body kw) of
             Inl e \<Rightarrow> Inl e
           | Inr b \<Rightarrow>
               Inr \<lparr>rq_verb = method,
                    rq_url = xapiand_build_url c action_request index (kw_ip kw) (kw_port kw)
                               (kw_nodename kw) (kw_id kw),
                    rq_body = b,
                    rq_params = map_option transform_params (kw_params kw),
                    rq_stream = (case kw_stream kw of None \<Rightarrow> Some stream | Some s \<Rightarrow> s),
                    rq_extra = kw_extra kw\<rparr>))"

subsection \<open>Status policy and decoding\<close>

text \<open>
  \<open>Response.raise_for_status\<close> of the transport library raises \<open>HTTPError\<close> for the
  client errors 400 to 499 and the server errors 500 to 599, and for no other status.
\<close>

definition raise_for_status :: "response \<Rightarrow> error + unit" where
  "raise_for_status res =
     (if 400 \<le> status_code res \<and> status_code res < 600 then Inl (HTTPError (status_code res))
      else Inr ())"

text \<open>Header names compare without regard to case.\<close>

definition lower_char :: "char \<Rightarrow> char" where
  "lower_char c =
     (case map_of (zip ''ABCDEFGHIJKLMNOPQRSTUVWXYZ'' ''abcdefghijklmnopqrstuvwxyz'') c of
        None \<Rightarrow> c
      | Some l \<Rightarrow> l)"

definition header_find :: "(string \<times> string) list \<Rightarrow> string \<Rightarrow> string option" where
  "header_find hs name =
     map_of (map (\<lambda>(k, v). (map lower_char k, v)) hs) (map lower_char name)"

text \<open>\<open>for k, v in res.headers.items(): setattr(results, k.replace('-', '_'), v)\<close>.\<close>

definition set_headers :: "(string \<times> string) list \<Rightarrow> (string \<times> json) list \<Rightarrow> (string \<times> json) list" where
  "set_headers hs a = foldl (\<lambda>d (k, v). dict_set d (replace_hyphen k) (JStr v)) a hs"

text \<open>What \<open>_send_request\<close> returns: the caller's default, one \<open>Result\<close>, or a
  \<open>Results\<close>.\<close>

datatype 'd ret = Default 'd | OneResult result | ManyResults results

text \<open>Lines 200 to 207: wrap, take the first record for a singular key, copy the
  headers.\<close>

definition wrap_results :: "string \<Rightarrow> response \<Rightarrow> json \<Rightarrow> source \<Rightarrow> error + 'd ret" where
  "wrap_results key res meta src =
     (case Results meta src of
        Inl e \<Rightarrow> Inl e
      | Inr r \<Rightarrow>
          if key = ''result'' then
            (case fst (Results_next r) of
               Inl e \<Rightarrow> Inl e
             | Inr x \<Rightarrow> Inr (OneResult (x\<lparr>attrs := set_headers (headers res) (attrs x)\<rparr>)))
          else Inr (ManyResults (r\<lparr>r_attrs := set_headers (headers res) (r_attrs r)\<rparr>)))"

text \<open>Lines 173 to 198: decoding of a response that passed the status check.\<close>

definition content_type :: "response \<Rightarrow> string" where
  "content_type res =
     (case header_find (headers res) ''content-type'' of None \<Rightarrow> [] | Some v \<Rightarrow> v)"

definition decode_response :: "string \<Rightarrow> bool option \<Rightarrow> response \<Rightarrow> error + 'd ret" where
  "decode_response key stream res =
     (let is_json = contains (content_type res) ''application/json''
      in if stream = Some True then
           (case results_next is_json (Fresh (iter_lines res)) of
              (Yield meta, g) \<Rightarrow> wrap_results key res meta (Generator is_json g)
            | (Raise e, g) \<Rightarrow> Inl e
            | (Stop, g) \<Rightarrow> Inl StopIteration)
         else if is_json then
           (case json_loads (content res) of
              Inl e \<Rightarrow> Inl e
            | Inr v \<Rightarrow> wrap_results key res (JObj []) (Listed [v]))
         else wrap_results key res (JObj []) (Listed [JStr (content res)]))"

text \<open>Lines 166 to 171: the status policy, then the decoding.\<close>

definition xapiand_response ::
  "string \<Rightarrow> string \<Rightarrow> bool option \<Rightarrow> 'd option \<Rightarrow> response \<Rightarrow> error + 'd ret" where
  "xapiand_response action_request key stream dflt res =
     (if status_code res = 404 \<and> action_request \<in> set [''patch'', ''delete'', ''get''] then
        (case dflt of
           None \<Rightarrow> Inl DoesNotExist
         | Some d \<Rightarrow> Inr (Default d))
      else
        (case raise_for_status res of
           Inl e \<Rightarrow> Inl e
         | Inr u \<Rightarrow> decode_response key stream res))"

text \<open>\<open>Xapiand._send_request\<close>.\<close>

definition xapiand_send_request ::
  "world \<Rightarrow> client \<Rightarrow> string \<Rightarrow> index_arg \<Rightarrow> 'd kwargs \<Rightarrow> error + 'd ret" where
  "xapiand_send_request w c action_request index kw =
     (case map_of xapiand_methods action_request of
        None \<Rightarrow> Inl (KeyError action_request)
      | Some (method, stream, key) \<Rightarrow>
          (case xapiand_request w c action_request index kw of
             Inl e \<Rightarrow> Inl e
           | Inr rq \<Rightarrow>
               (case http w rq of
                  Inl e \<Rightarrow> Inl e
                | Inr res \<Rightarrow>
                    xapiand_response action_request key (rq_stream rq) (kw_default kw) res)))"

subsection \<open>The action methods\<close>

text \<open>
  Each action method fills a keyword dictionary and ends in
  \<open>return self._send_request(action, index, **kwargs)\<close>. A method is modelled as the
  call of \<open>_send_request\<close> it makes: the action, the index and the keyword arguments;
  \<open>outgoing\<close> is the request this call puts on the wire and \<open>perform\<close> its result.
  The argument \<open>kw\<close> is the caller's \<open>kwargs\<close> dictionary (for \<open>search\<close> and
  \<open>facets\<close>: updated with the extra keywords \<open>**kw\<close>). A parameter whose value is
  \<open>JNull\<close> is Python's \<open>None\<close>, which is also what a parameter left out defaults to.
\<close>

type_synonym 'd call = "string \<times> index_arg \<times> 'd kwargs"

definition outgoing :: "world \<Rightarrow> client \<Rightarrow> 'd call \<Rightarrow> error + request" where
  "outgoing w c cl = xapiand_request w c (fst cl) (fst (snd cl)) (snd (snd cl))"

definition perform :: "world \<Rightarrow> client \<Rightarrow> 'd call \<Rightarrow> error + 'd ret" where
  "perform w c cl = xapiand_send_request w c (fst cl) (fst (snd cl)) (snd (snd cl))"

text \<open>The optional parameters of \<open>search\<close> and \<open>facets\<close>, with their defaults.\<close>

record search_args =
  a_query :: json
  a_partial :: json
  a_terms :: json
  a_offset :: json
  a_limit :: json
  a_sort :: json
  a_facets :: json
  a_language :: json
  a_pretty :: json
  a_volatile :: json

definition search_defaults :: search_args where
  "search_defaults =
     \<lparr>a_query = JNull, a_partial = JNull, a_terms = JNull, a_offset = JNull, a_limit = JNull,
      a_sort = JNull, a_facets = JNull, a_language = JNull, a_pretty = JBool False,
      a_volatile = JBool False\<rparr>"

text \<open>Lines 212 to 231 (and 237 to 256): \<open>if x is not None: kwargs['params']['x'] = x\<close>.\<close>

definition xapiand_search_params :: "search_args \<Rightarrow> (string \<times> json) list" where
  "xapiand_search_params a =
     (let p0 = dict_of_pairs [(''pretty'', a_pretty a), (''volatile'', a_volatile a)];
          p1 = (if a_query a \<noteq> JNull then dict_set p0 ''query'' (a_query a) else p0);
          p2 = (if a_partial a \<noteq> JNull then dict_set p1 ''partial'' (a_partial a) else p1);
          p3 = (if a_terms a \<noteq> JNull then dict_set p2 ''terms'' (a_terms a) else p2);
          p4 = (if a_offset a \<noteq> JNull then dict_set p3 ''offset'' (a_offset a) else p3);
          p5 = (if a_limit a \<noteq> JNull then dict_set p4 ''limit'' (a_limit a) else p4);
          p6 = (if a_sort a \<noteq> JNull then dict_set p5 ''sort'' (a_sort a) else p5);
          p7 = (if a_facets a \<noteq> JNull then dict_set p6 ''facets'' (a_facets a) else p6);
          p8 = (if a_language a \<noteq> JNull then dict_set p7 ''language'' (a_language a) else p7)
      in p8)"

definition xapiand_search :: "index_arg \<Rightarrow> search_args \<Rightarrow> 'd kwargs \<Rightarrow> 'd call" where
  "xapiand_search index a kw =
     (''search'', index, kw\<lparr>kw_params := Some (xapiand_search_params a)\<rparr>)"

definition xapiand_facets :: "index_arg \<Rightarrow> search_args \<Rightarrow> 'd kwargs \<Rightarrow> 'd call" where
  "xapiand_facets index a kw =
     (''facets'', index, kw\<lparr>kw_params := Some (xapiand_search_params a)\<rparr>)"

definition xapiand_stats :: "index_arg \<Rightarrow> json \<Rightarrow> 'd kwargs \<Rightarrow> 'd call" where
  "xapiand_stats index pretty kw =
     (''stats'', index, kw\<lparr>kw_params := Some (dict_of_pairs [(''pretty'', pretty)])\<rparr>)"

definition xapiand_head :: "index_arg \<Rightarrow> string option \<Rightarrow> json \<Rightarrow> 'd kwargs \<Rightarrow> 'd call" where
  "xapiand_head index docid pretty kw =
     (''head'', index,
      kw\<lparr>kw_id := docid, kw_params := Some (dict_of_pairs [(''pretty'', pretty)])\<rparr>)"

definition xapiand_get ::
  "index_arg \<Rightarrow> string option \<Rightarrow> 'd option \<Rightarrow> json \<Rightarrow> json \<Rightarrow> 'd kwargs \<Rightarrow> 'd call" where
  "xapiand_get index docid dflt pretty volatile kw =
     (''get'', index,
      kw\<lparr>kw_id := docid,
         kw_params := Some (dict_of_pairs [(''pretty'', pretty), (''volatile'', volatile)]),
         kw_default := dflt\<rparr>)"

text \<open>\<open>commit=self.commit if commit is None else commit\<close>.\<close>

definition commit_param :: "client \<Rightarrow> json \<Rightarrow> json" where
  "commit_param c cm = (if cm = JNull then JBool (commit c) else cm)"

definition xapiand_delete ::
  "client \<Rightarrow> index_arg \<Rightarrow> string option \<Rightarrow> json \<Rightarrow> json \<Rightarrow> 'd kwargs \<Rightarrow> 'd call" where
  "xapiand_delete c index docid cm pretty kw =
     (''delete'', index,
      kw\<lparr>kw_id := docid,
         kw_params := Some (dict_of_pairs [(''commit'', commit_param c cm), (''pretty'', pretty)])\<rparr>)"

definition xapiand_post ::
  "client \<Rightarrow> index_arg \<Rightarrow> body option \<Rightarrow> json \<Rightarrow> json \<Rightarrow> 'd kwargs \<Rightarrow> 'd call" where
  "xapiand_post c index b cm pretty kw =
     (''post'', index,
      kw\<lparr>kw_body := b,
         kw_params := Some (dict_of_pairs [(''commit'', commit_param c cm), (''pretty'', pretty)])\<rparr>)"

definition xapiand_put ::
  "client \<Rightarrow> index_arg \<Rightarrow> body option \<Rightarrow> string option \<Rightarrow> json \<Rightarrow> json \<Rightarrow> 'd kwargs \<Rightarrow> 'd call" where
  "xapiand_put c index b docid cm pretty kw =
     (''put'', index,
      kw\<lparr>kw_id := docid, kw_body := b,
         kw_params := Some (dict_of_pairs [(''commit'', commit_param c cm), (''pretty'', pretty)])\<rparr>)"

text \<open>\<open>index = put\<close> (line 311).\<close>

definition xapiand_index ::
  "client \<Rightarrow> index_arg \<Rightarrow> body option \<Rightarrow> string option \<Rightarrow> json \<Rightarrow> json \<Rightarrow> 'd kwargs \<Rightarrow> 'd call" where
  "xapiand_index = xapiand_put"

definition xapiand_patch ::
  "client \<Rightarrow> index_arg \<Rightarrow> string option \<Rightarrow> body option \<Rightarrow> json \<Rightarrow> json \<Rightarrow> 'd kwargs \<Rightarrow> 'd call" where
  "xapiand_patch c index docid b cm pretty kw =
     (''patch'', index,
      kw\<lparr>kw_id := docid, kw_body := b,
         kw_params := Some (dict_of_pairs [(''commit'', commit_param c cm), (''pretty'', pretty)])\<rparr>)"

section \<open>The legacy client\<close>

text \<open>The client of \<open>haystack/client.py\<close>: no prefix, no \<open>post\<close>, no default value.\<close>

record hclient =
  h_ip :: "string option"
  h_port :: "port option"
  h_commit :: bool

definition Haystack :: "string option \<Rightarrow> port option \<Rightarrow> bool \<Rightarrow> hclient" where
  "Haystack ip0 port0 commit0 =
     (let (ip1, port1) = split_host ip0 port0
      in \<lparr>h_ip = ip1, h_port = port1, h_commit = commit0\<rparr>)"

definition haystack_methods :: "(string \<times> verb \<times> bool \<times> string) list" where
  "haystack_methods =
     [(''search'', GET, True, ''results''),
      (''facets'', GET, True, ''facets''),
      (''stats'', GET, False, ''result''),
      (''get'', GET, False, ''result''),
      (''delete'', DELETE, False, ''result''),
      (''head'', HEAD, False, ''result''),
      (''index'', PUT, False, ''result''),
      (''patch'', PATCH, False, ''result'')]"

definition haystack_host :: "hclient \<Rightarrow> string option \<Rightarrow> port option \<Rightarrow> string" where
  "haystack_host c ip0 port0 =
     (let (ip1, port1) = split_host ip0 port0;
          ip2 = (if \<not> str_truthy ip1 then h_ip c else ip1);
          port2 = (if \<not> port_truthy port1 then h_port c else port1)
      in format_str ip2 @ '':'' @ format_port port2)"

text \<open>\<open>if isinstance(endpoint, (tuple, list)): endpoint = ','.join(endpoint)\<close>.\<close>

fun haystack_endpoint :: "index_arg \<Rightarrow> string" where
  "haystack_endpoint (One e) = e"
| "haystack_endpoint (Many es) = join_comma es"

text \<open>\<open>Xapiand.build_url\<close> of the legacy client, with its four format strings.\<close>

definition haystack_build_url ::
  "hclient \<Rightarrow> string \<Rightarrow> index_arg \<Rightarrow> string option \<Rightarrow> port option \<Rightarrow> string option \<Rightarrow>
   string option \<Rightarrow> string" where
  "haystack_build_url c action_request endpoint ip0 port0 nodename document_id =
     (let host = haystack_host c ip0 port0; ep = haystack_endpoint endpoint
      in if document_id \<noteq> None then
           (if str_truthy nodename
            then ''http://'' @ host @ ''/'' @ ep @ ''@'' @ format_str nodename @ ''/''
                   @ format_str document_id
            else ''http://'' @ host @ ''/'' @ ep @ ''/'' @ format_str document_id)
         else
           (if str_truthy nodename
            then ''http://'' @ host @ ''/'' @ ep @ ''@'' @ format_str nodename @ ''/_''
                   @ action_request @ ''/''
            else ''http://'' @ host @ ''/'' @ ep @ ''/_'' @ action_request @ ''/''))"

definition haystack_request ::
  "world \<Rightarrow> hclient \<Rightarrow> string \<Rightarrow> index_arg \<Rightarrow> 'd kwargs \<Rightarrow> error + request" where
  "haystack_request w c action_request endpoint kw =
     (case map_of haystack_methods action_request of
        None \<Rightarrow> Inl (KeyError action_request)
      | Some (method, stream, key) \<Rightarrow>
          (case encode_body w (kw_body kw) of
             Inl e \<Rightarrow> Inl e
           | Inr b \<Rightarrow>
               Inr \<lparr>rq_verb = method,
                    rq_url = haystack_build_url c action_request endpoint (kw_ip kw) (kw_port kw)
                               (kw_nodename kw) (kw_id kw),
                    rq_body = b,
                    rq_params = map_option transform_params (kw_params kw),
                    rq_stream = (case kw_stream kw of None \<Rightarrow> Some stream | Some s \<Rightarrow> s),
                    rq_extra = kw_extra kw\<rparr>))"

text \<open>
  What the legacy client puts under the response key: one decoded value, a list, or
  the generator \<open>results(res.iter_lines())\<close> that decodes each non-empty line when
  it is reached (kept as its flag and the lines still to come).
\<close>

datatype hpayload = HOne json | HList "json list" | HLazy bool "string list"

record hresponse =
  h_key :: string
  h_payload :: hpayload
  h_size :: "json option"

text \<open>\<open>for result in results: results = result; break\<close> on the generator.\<close>

fun haystack_first :: "bool \<Rightarrow> string list \<Rightarrow> error + hpayload" where
  "haystack_first is_json [] = Inr (HLazy is_json [])"
| "haystack_first is_json (line # ls) =
     (if line = [] then haystack_first is_json ls
      else if is_json then
        (case json_loads line of
           Inl e \<Rightarrow> Inl e
         | Inr v \<Rightarrow> Inr (HOne v))
      else Inr (HOne (JStr line)))"

text \<open>\<open>res.ok\<close> of the transport library: \<open>raise_for_status\<close> does not raise.\<close>

definition response_ok :: "response \<Rightarrow> bool" where
  "response_ok res = (raise_for_status res = Inr ())"

text \<open>Lines 116 to 143 of the legacy \<open>send_request\<close>.\<close>

definition haystack_response ::
  "string \<Rightarrow> string \<Rightarrow> bool option \<Rightarrow> response \<Rightarrow> error + hresponse" where
  "haystack_response action_request key stream res =
     (if status_code res \<noteq> 200
      then Inl (HTTPErrorMsg (''Return code is '' @ str_of_int (status_code res)))
      else
        (case header_find (headers res) ''content-type'' of
           None \<Rightarrow> Inl (KeyError ''content-type'')
         | Some ct \<Rightarrow>
             (let is_json = contains ct ''application/json'';
                  size = (case header_find (headers res) ''x-matched-count'' of
                            Some n \<Rightarrow> Some (JStr n)
                          | None \<Rightarrow>
                              if action_request = ''search'' \<and> \<not> response_ok res
                              then Some (JInt 0) else None)
              in if stream = Some True then
                   (if key = ''result'' then
                      (case haystack_first is_json (iter_lines res) of
                         Inl e \<Rightarrow> Inl e
                       | Inr p \<Rightarrow> Inr \<lparr>h_key = key, h_payload = p, h_size = size\<rparr>)
                    else Inr \<lparr>h_key = key, h_payload = HLazy is_json (iter_lines res),
                              h_size = size\<rparr>)
                 else
                   (case (if is_json then json_loads (content res)
                          else Inr (JStr (content res))) of
                      Inl e \<Rightarrow> Inl e
                    | Inr v \<Rightarrow>
                        Inr \<lparr>h_key = key,
                             h_payload = (if key = ''result'' then HOne v else HList [v]),
                             h_size = size\<rparr>))))"

text \<open>\<open>Xapiand.send_request\<close> of the legacy client; every \<open>except\<close> clause re-raises.\<close>

definition haystack_send_request ::
  "world \<Rightarrow> hclient \<Rightarrow> string \<Rightarrow> index_arg \<Rightarrow> 'd kwargs \<Rightarrow> error + hresponse" where
  "haystack_send_request w c action_request endpoint kw =
     (case map_of haystack_methods action_request of
        None \<Rightarrow> Inl (KeyError action_request)
      | Some (method, stream, key) \<Rightarrow>
          (case haystack_request w c action_request endpoint kw of
             Inl e \<Rightarrow> Inl e
           | Inr rq \<Rightarrow>
               (case http w rq of
                  Inl e \<Rightarrow> Inl e
                | Inr res \<Rightarrow> haystack_response action_request key (rq_stream rq) res)))"

text \<open>
  The legacy action methods, as the calls of \<open>send_request\<close> they make. Lines 165 to
  180 (and 189 to 204): \<open>if x is None: kwargs['params']['x'] = x\<close>.
\<close>

definition haystack_outgoing :: "world \<Rightarrow> hclient \<Rightarrow> 'd call \<Rightarrow> error + request" where
  "haystack_outgoing w c cl = haystack_request w c (fst cl) (fst (snd cl)) (snd (snd cl))"

definition haystack_perform :: "world \<Rightarrow> hclient \<Rightarrow> 'd call \<Rightarrow> error + hresponse" where
  "haystack_perform w c cl = haystack_send_request w c (fst cl) (fst (snd cl)) (snd (snd cl))"

definition haystack_search_params :: "search_args \<Rightarrow> (string \<times> json) list" where
  "haystack_search_params a =
     (let p0 = dict_of_pairs [(''pretty'', a_pretty a)];
          p1 = (if a_query a = JNull then dict_set p0 ''query'' (a_query a) else p0);
          p2 = (if a_partial a = JNull then dict_set p1 ''partial'' (a_partial a) else p1);
          p3 = (if a_terms a = JNull then dict_set p2 ''terms'' (a_terms a) else p2);
          p4 = (if a_offset a = JNull then dict_set p3 ''offset'' (a_offset a) else p3);
          p5 = (if a_limit a = JNull then dict_set p4 ''limit'' (a_limit a) else p4);
          p6 = (if a_sort a = JNull then dict_set p5 ''sort'' (a_sort a) else p5);
          p7 = (if a_facets a = JNull then dict_set p6 ''facets'' (a_facets a) else p6);
          p8 = (if a_language a = JNull then dict_set p7 ''language'' (a_language a) else p7)
      in p8)"

definition haystack_search :: "index_arg \<Rightarrow> search_args \<Rightarrow> 'd kwargs \<Rightarrow> 'd call" where
  "haystack_search endpoint a kw =
     (''search'', endpoint, kw\<lparr>kw_params := Some (haystack_search_params a)\<rparr>)"

definition haystack_facets :: "index_arg \<Rightarrow> search_args \<Rightarrow> 'd kwargs \<Rightarrow> 'd call" where
  "haystack_facets endpoint a kw =
     (''facets'', endpoint, kw\<lparr>kw_params := Some (haystack_search_params a)\<rparr>)"

definition haystack_stats :: "index_arg \<Rightarrow> json \<Rightarrow> 'd kwargs \<Rightarrow> 'd call" where
  "haystack_stats endpoint pretty kw =
     (''stats'', endpoint, kw\<lparr>kw_params := Some (dict_of_pairs [(''pretty'', pretty)])\<rparr>)"

definition haystack_head :: "index_arg \<Rightarrow> string option \<Rightarrow> json \<Rightarrow> 'd kwargs \<Rightarrow> 'd call" where
  "haystack_head endpoint document_id pretty kw =
     (''head'', endpoint,
      kw\<lparr>kw_id := document_id, kw_params := Some (dict_of_pairs [(''pretty'', pretty)])\<rparr>)"

definition haystack_get :: "index_arg \<Rightarrow> string option \<Rightarrow> json \<Rightarrow> 'd kwargs \<Rightarrow> 'd call" where
  "haystack_get endpoint document_id pretty kw =
     (''get'', endpoint,
      kw\<lparr>kw_id := document_id, kw_params := Some (dict_of_pairs [(''pretty'', pretty)])\<rparr>)"

definition hcommit_param :: "hclient \<Rightarrow> json \<Rightarrow> json" where
  "hcommit_param c cm = (if cm = JNull then JBool (h_commit c) else cm)"

definition haystack_delete ::
  "hclient \<Rightarrow> index_arg \<Rightarrow> string option \<Rightarrow> json \<Rightarrow> json \<Rightarrow> 'd kwargs \<Rightarrow> 'd call" where
  "haystack_delete c endpoint document_id cm pretty kw =
     (''delete'', endpoint,
      kw\<lparr>kw_id := document_id,
         kw_params := Some (dict_of_pairs [(''commit'', hcommit_param c cm), (''pretty'', pretty)])\<rparr>)"

definition haystack_index ::
  "hclient \<Rightarrow> index_arg \<Rightarrow> string option \<Rightarrow> body option \<Rightarrow> json \<Rightarrow> json \<Rightarrow> 'd kwargs \<Rightarrow> 'd call" where
  "haystack_index c endpoint document_id b cm pretty kw =
     (''index'', endpoint,
      kw\<lparr>kw_id := document_id, kw_body := b,
         kw_params := Some (dict_of_pairs [(''commit'', hcommit_param c cm), (''pretty'', pretty)])\<rparr>)"

definition haystack_patch ::
  "hclient \<Rightarrow> index_arg \<Rightarrow> string option \<Rightarrow> body option \<Rightarrow> json \<Rightarrow> json \<Rightarrow> 'd kwargs \<Rightarrow> 'd call" where
  "haystack_patch c endpoint document_id b cm pretty kw =
     (''patch'', endpoint,
      kw\<lparr>kw_id := document_id, kw_body := b,
         kw_params := Some (dict_of_pairs [(''commit'', hcommit_param c cm), (''pretty'', pretty)])\<rparr>)"

section \<open>Concrete servers used in the examples\<close>

text \<open>A world without files whose server answers every request with the same response.\<close>

definition answering :: "response \<Rightarrow> world" where
  "answering res = \<lparr>isfile = (\<lambda>p. False), readable = (\<lambda>p. False), http = (\<lambda>rq. Inr res)\<rparr>"


section \<open>Notions used to state the properties\<close>

text \<open>A legacy client with the default host and port.\<close>

definition legacy :: hclient where
  "legacy = Haystack (Some ''127.0.0.1'') (Some (PInt 8880)) False"

text \<open>Whether a string still has two underscores in a row.\<close>

fun has_dunder :: "string \<Rightarrow> bool" where
  "has_dunder (a # b # cs) = (a = CHR ''_'' \<and> b = CHR ''_'' \<or> has_dunder (b # cs))"
| "has_dunder cs = False"

text \<open>The names of the eight optional parameters, and the value each has in a call.\<close>

definition optional_value :: "search_args \<Rightarrow> string \<Rightarrow> json option" where
  "optional_value a name =
     map_of [(''query'', a_query a), (''partial'', a_partial a), (''terms'', a_terms a),
             (''offset'', a_offset a), (''limit'', a_limit a), (''sort'', a_sort a),
             (''facets'', a_facets a), (''language'', a_language a)] name"

text \<open>The query parameters of an outgoing request, looked up by name.\<close>

definition sent_param :: "error + request \<Rightarrow> string \<Rightarrow> json option" where
  "sent_param r name =
     (case r of
        Inl e \<Rightarrow> None
      | Inr rq \<Rightarrow> (case rq_params rq of None \<Rightarrow> None | Some ps \<Rightarrow> map_of ps name))"

text \<open>The two exceptions that stand for an HTTP error status.\<close>

fun is_http_error :: "error \<Rightarrow> bool" where
  "is_http_error (HTTPError n) = True"
| "is_http_error (HTTPErrorMsg m) = True"
| "is_http_error e = False"

text \<open>Three responses without headers or body, and a keyword dictionary for them.\<close>

definition bare :: "int \<Rightarrow> response" where
  "bare n = \<lparr>status_code = n, headers = [], content = [], iter_lines = []\<rparr>"

definition for_doc :: "json option \<Rightarrow> json kwargs" where
  "for_doc dflt = no_kwargs\<lparr>kw_id := Some ''42'', kw_default := dflt\<rparr>"






section \<open>Facts about the helpers\<close>

lemma map_of_dict_set: "map_of (dict_set d k v) = (map_of d)(k \<mapsto> v)"
  by (induction d) auto

lemma keys_dict_set: "fst ` set (dict_set d k v) = insert k (fst ` set d)"
  by (simp add: dom_map_of_conv_image_fst [symmetric] map_of_dict_set)

lemma map_of_foldl_dict_set:
  "map_of (foldl (\<lambda>d (k, v). dict_set d k v) d0 ps) = map_of d0 ++ map_of (rev ps)"
proof (induction ps arbitrary: d0)
  case Nil
  show ?case by simp
next
  case (Cons p ps)
  obtain k v where p: "p = (k, v)" by (cases p)
  have "map_of (foldl (\<lambda>d (k, v). dict_set d k v) (dict_set d0 k v) ps)
          = map_of (dict_set d0 k v) ++ map_of (rev ps)"
    by (rule Cons.IH)
  also have "\<dots> = map_of d0 ++ map_of (rev ps @ [(k, v)])"
    by (simp add: map_of_dict_set)
  finally show ?case by (simp add: p)
qed

lemma map_of_dict_of_pairs: "map_of (dict_of_pairs ps) = map_of (rev ps)"
  by (simp add: dict_of_pairs_def map_of_foldl_dict_set)

lemma dict_set_fresh: "k \<notin> fst ` set d \<Longrightarrow> dict_set d k v = d @ [(k, v)]"
  by (induction d) auto

lemma foldl_dict_set_distinct:
  "distinct (map fst d0 @ map fst ps) \<Longrightarrow>
   foldl (\<lambda>d (k, v). dict_set d k v) d0 ps = d0 @ ps"
proof (induction ps arbitrary: d0)
  case Nil
  show ?case by simp
next
  case (Cons p ps)
  obtain k v where p: "p = (k, v)" by (cases p)
  from Cons.prems have fresh: "k \<notin> fst ` set d0" by (auto simp: p)
  from Cons.prems have "distinct (map fst (d0 @ [(k, v)]) @ map fst ps)" by (auto simp: p)
  then have "foldl (\<lambda>d (k, v). dict_set d k v) (d0 @ [(k, v)]) ps = (d0 @ [(k, v)]) @ ps"
    by (rule Cons.IH)
  then show ?case by (simp add: p dict_set_fresh [OF fresh])
qed

lemma dict_of_pairs_distinct: "distinct (map fst ps) \<Longrightarrow> dict_of_pairs ps = ps"
  using foldl_dict_set_distinct [of "[]" ps] by (simp add: dict_of_pairs_def)

lemma digits_8880: "digits_of_nat 8880 = ''8880''"
  by (simp add: digits_of_nat.simps digit_char_def)

subsection \<open>The JSON decoder consumes its input and never runs out of depth\<close>

lemma skip_ws_length: "length (skip_ws s) \<le> length s"
  by (simp add: skip_ws_def length_dropWhile_le)

lemma skip_ws_Cons: "skip_ws s = c # cs \<Longrightarrow> length cs < length s"
  using skip_ws_length [of s] by simp

lemma scan_string_length: "scan_string acc s = Inr (x, r) \<Longrightarrow> length r < length s"
  by (induction acc s rule: scan_string.induct) (auto split: if_splits)

lemma scan_int_length: "scan_int s = Inr (i, r) \<Longrightarrow> length r < length s"
proof -
  assume a: "scan_int s = Inr (i, r)"
  define s1 where "s1 = (if startswith s ''-'' then drop 1 s else s)"
  define ds where "ds = (if startswith s1 ''0'' then ''0'' else takeWhile is_digit s1)"
  from a have ne: "ds \<noteq> []" and r: "r = drop (length ds) s1"
    by (auto simp: scan_int_def Let_def s1_def ds_def split: if_splits)
  have "length ds \<le> length s1"
    by (cases s1) (auto simp: ds_def startswith_def length_takeWhile_le)
  with ne have "length r < length s1"
    by (cases ds) (auto simp: r)
  moreover have "length s1 \<le> length s"
    by (simp add: s1_def)
  ultimately show ?thesis by simp
qed

lemma parse_length:
  "parse_value n s = Inr (v, r) \<Longrightarrow> length r < length s"
  "parse_members n kvs s = Inr (v, r) \<Longrightarrow> length r < length s"
  "parse_elements n vs s = Inr (v, r) \<Longrightarrow> length r < length s"
proof (induction n s and n kvs s and n vs s arbitrary: v r and v r and v r
    rule: parse_value_parse_members_parse_elements.induct)
  case (1 s)
  then show ?case by simp
next
  case (2 n s)
  show ?case
  proof (cases "skip_ws s")
    case Nil
    with 2 show ?thesis by simp
  next
    case (Cons c cs)
    note len = skip_ws_Cons [OF Cons] skip_ws_length [of cs]
    from "2.prems" Cons len(2) consider
        (short) "length r \<le> length cs"
      | (obj) "c = CHR ''{''" "\<not> startswith (skip_ws cs) ''}''" "parse_members n [] cs = Inr (v, r)"
      | (arr) "c \<noteq> CHR ''{''" "c = CHR ''[''" "\<not> startswith (skip_ws cs) '']''"
          "parse_elements n [] cs = Inr (v, r)"
      | (str) x where "scan_string [] cs = Inr (x, r)"
      | (num) i where "scan_int (c # cs) = Inr (i, r)"
      by (auto split: if_splits sum.splits)
    then show ?thesis
    proof cases
      case short
      with len show ?thesis by simp
    next
      case obj
      with "2.IH"(1) [OF Cons] len show ?thesis by fastforce
    next
      case arr
      with "2.IH"(2) [OF Cons] len show ?thesis by fastforce
    next
      case str
      with scan_string_length len show ?thesis by fastforce
    next
      case num
      with scan_int_length [of "c # cs" i r] len show ?thesis by simp
    qed
  qed
next
  case (3 acc s)
  then show ?case by simp
next
  case (4 n acc s)
  from "4.prems" obtain c cs where s: "skip_ws s = c # cs" and c: "c = CHR 0x22"
    by (auto split: list.splits if_splits)
  from "4.prems" s c obtain k r1 where k: "scan_string [] cs = Inr (k, r1)"
    by (auto split: sum.splits)
  from "4.prems" s c k obtain c2 r2 where r1: "skip_ws r1 = c2 # r2" and c2: "c2 = CHR '':''"
    by (auto split: list.splits if_splits)
  from "4.prems" s c k r1 c2 obtain v1 r3 where v1: "parse_value n r2 = Inr (v1, r3)"
    by (auto split: sum.splits)
  from "4.prems" s c k r1 c2 v1 obtain c4 r4 where r3: "skip_ws r3 = c4 # r4"
    by (auto split: list.splits)
  have "length r3 < length r2"
    using "4.IH"(1) s c k r1 c2 v1 by fastforce
  then have chain: "length r4 < length s"
    using skip_ws_Cons [OF s] scan_string_length [OF k] skip_ws_Cons [OF r1]
      skip_ws_Cons [OF r3]
    by simp
  from "4.prems" s c k r1 c2 v1 r3 consider
      (again) "c4 = CHR '',''" "parse_members n (dict_set acc k v1) r4 = Inr (v, r)"
    | (closing) "r = r4"
    by (auto split: if_splits)
  then show ?case
  proof cases
    case again
    have "length r < length r4"
      using "4.IH"(2) s c k r1 c2 v1 r3 again by fastforce
    with chain show ?thesis by simp
  next
    case closing
    with chain show ?thesis by simp
  qed
next
  case (5 acc s)
  then show ?case by simp
next
  case (6 n acc s)
  from "6.prems" obtain v1 r1 where v1: "parse_value n s = Inr (v1, r1)"
    by (auto split: sum.splits)
  from "6.prems" v1 obtain c r2 where r1: "skip_ws r1 = c # r2"
    by (auto split: list.splits)
  have "length r1 < length s"
    using "6.IH"(1) v1 by fastforce
  then have chain: "length r2 < length s"
    using skip_ws_Cons [OF r1] by simp
  from "6.prems" v1 r1 consider
      (again) "c = CHR '',''" "parse_elements n (acc @ [v1]) r2 = Inr (v, r)"
    | (closing) "r = r2"
    by (auto split: if_splits)
  then show ?case
  proof cases
    case again
    have "length r < length r2"
      using "6.IH"(2) v1 r1 again by fastforce
    with chain show ?thesis by simp
  next
    case closing
    with chain show ?thesis by simp
  qed
qed
text \<open>
  The depth bound does not shape the result: with more than the length of the text, one
  more makes no difference once the bound exceeds twice the length of the text. So
  \<open>json_loads\<close> gives what the unbounded recursion would give.
\<close>

lemma parse_fuel:
  "2 * length s < n \<Longrightarrow> parse_value (Suc n) s = parse_value n s"
  "2 * length s < n \<Longrightarrow> parse_members (Suc n) kvs s = parse_members n kvs s"
  "2 * length s + 1 < n \<Longrightarrow> parse_elements (Suc n) vs s = parse_elements n vs s"
proof (induction n s and n kvs s and n vs s
    rule: parse_value_parse_members_parse_elements.induct)
  case (1 s)
  then show ?case by simp
next
  case (2 n s)
  show ?case
  proof (cases "skip_ws s")
    case Nil
    then show ?thesis by simp
  next
    case (Cons c cs)
    from skip_ws_Cons [OF Cons] "2.prems" have short: "2 * length cs + 1 < n" by simp
    have m: "c = CHR ''{'' \<Longrightarrow> \<not> startswith (skip_ws cs) ''}'' \<Longrightarrow>
        parse_members (Suc n) [] cs = parse_members n [] cs"
      using "2.IH"(1) [OF Cons] short by simp
    have e: "c \<noteq> CHR ''{'' \<Longrightarrow> c = CHR ''['' \<Longrightarrow> \<not> startswith (skip_ws cs) '']'' \<Longrightarrow>
        parse_elements (Suc n) [] cs = parse_elements n [] cs"
      using "2.IH"(2) [OF Cons] short by simp
    show ?thesis
      using m e by (simp add: Cons del: parse_members.simps parse_elements.simps)
  qed
next
  case (3 acc s)
  then show ?case by simp
next
  case (4 n acc s)
  show ?case
  proof (cases "skip_ws s")
    case Nil
    then show ?thesis by simp
  next
    case s: (Cons c cs)
    show ?thesis
    proof (cases "c = CHR 0x22")
      case False
      with s show ?thesis by simp
    next
      case c: True
      show ?thesis
      proof (cases "scan_string [] cs")
        case (Inl err)
        with s c show ?thesis by simp
      next
        case (Inr kr)
        obtain k r1 where kr: "kr = (k, r1)" by (cases kr)
        note k = Inr [unfolded kr]
        show ?thesis
        proof (cases "skip_ws r1")
          case Nil
          with s c k show ?thesis by simp
        next
          case r1: (Cons c2 r2)
          show ?thesis
          proof (cases "c2 = CHR '':''")
            case False
            with s c k r1 show ?thesis by simp
          next
            case c2: True
            have len2: "2 * length r2 < n"
              using skip_ws_Cons [OF s] scan_string_length [OF k] skip_ws_Cons [OF r1]
                "4.prems" by simp
            have v: "parse_value (Suc n) r2 = parse_value n r2"
              using "4.IH"(1) s c k r1 c2 len2 by fastforce
            show ?thesis
            proof (cases "parse_value n r2")
              case (Inl err)
              with s c k r1 c2 v show ?thesis
                by (simp del: parse_value.simps)
            next
              case (Inr vr)
              obtain v1 r3 where vr: "vr = (v1, r3)" by (cases vr)
              note v1 = Inr [unfolded vr]
              show ?thesis
              proof (cases "skip_ws r3")
                case Nil
                with s c k r1 c2 v v1 show ?thesis
                  by (simp del: parse_value.simps)
              next
                case r3: (Cons c4 r4)
                have len4: "2 * length r4 < n"
                  using parse_length(1) [OF v1] skip_ws_Cons [OF r3] len2 by simp
                have "c4 = CHR '','' \<Longrightarrow>
                    parse_members (Suc n) (dict_set acc k v1) r4
                      = parse_members n (dict_set acc k v1) r4"
                  using "4.IH"(2) s c k r1 c2 v1 r3 len4 by fastforce
                with s c k r1 c2 v v1 r3 show ?thesis
                  by (simp del: parse_value.simps parse_members.simps
                        add: parse_members.simps(2) [of "Suc n"] parse_members.simps(2) [of n])
              qed
            qed
          qed
        qed
      qed
    qed
  qed
next
  case (5 acc s)
  then show ?case by simp
next
  case (6 n acc s)
  have v: "parse_value (Suc n) s = parse_value n s"
    using "6.IH"(1) "6.prems" by (simp del: parse_value.simps)
  show ?case
  proof (cases "parse_value n s")
    case (Inl err)
    with v show ?thesis by (simp del: parse_value.simps)
  next
    case (Inr vr)
    obtain v1 r1 where vr: "vr = (v1, r1)" by (cases vr)
    note v1 = Inr [unfolded vr]
    show ?thesis
    proof (cases "skip_ws r1")
      case Nil
      with v v1 show ?thesis by (simp del: parse_value.simps)
    next
      case r1: (Cons c r2)
      have len2: "2 * length r2 + 1 < n"
        using parse_length(1) [OF v1] skip_ws_Cons [OF r1] "6.prems" by simp
      have "c = CHR '','' \<Longrightarrow>
          parse_elements (Suc n) (acc @ [v1]) r2 = parse_elements n (acc @ [v1]) r2"
        using "6.IH"(2) v1 r1 len2 by fastforce
      with v v1 r1 show ?thesis
        by (simp del: parse_value.simps parse_elements.simps
              add: parse_elements.simps(2) [of "Suc n"] parse_elements.simps(2) [of n])
    qed
  qed
qed

lemma parse_value_enough:
  "2 * length s < n \<Longrightarrow> parse_value n s = parse_value (Suc (length s + length s)) s"
proof (induction n)
  case 0
  then show ?case by simp
next
  case (Suc n)
  show ?case
  proof (cases "2 * length s < n")
    case True
    with Suc.IH parse_fuel(1) [of s n] show ?thesis by (simp del: parse_value.simps)
  next
    case False
    with Suc.prems have "n = length s + length s" by simp
    then show ?thesis by (simp del: parse_value.simps)
  qed
qed

subsection \<open>Unfolding the URL builder\<close>

lemmas url_defs =
  xapiand_build_url_def url_host_def url_index_def url_nodename_def url_tail_def
  split_host_def partition_colon_def str_of_int_def

lemmas legacy_defs =
  legacy_def Haystack_def haystack_build_url_def haystack_host_def split_host_def
  str_of_int_def

lemmas live_defs =
  live_def Xapiand_def XAPIAND_HOST_def XAPIAND_PORT_def XAPIAND_COMMIT_def
  XAPIAND_LIVE_PREFIX_def

section \<open>The URL builder\<close>

text \<open>
  Claim C10. In the newer client the URL built for the action \<open>post\<close> has the empty
  path tail whatever the document id is: a supplied id is ignored, and the URL is the one
  built without an id from the same host, port, prefix, index names and node name.
\<close>

theorem post_ignores_id:
  "xapiand_build_url c ''post'' index ip0 port0 nodename (Some d)
     = xapiand_build_url c ''post'' index ip0 port0 nodename None
   \<and> xapiand_build_url c ''post'' index ip0 port0 nodename (Some d)
     = ''http://'' @ url_host c ip0 port0 @ ''/'' @ url_index c index @ url_nodename nodename
         @ ''/''"
  by (simp add: xapiand_build_url_def url_tail_def)

text \<open>
  Claim C4, amended. In the newer client, for every action, index and node name: with a
  document id and an action other than \<open>post\<close> the path tail is the id itself; without
  an id and with an action other than \<open>post\<close> it is \<open>_<action>/\<close>; for \<open>post\<close>
  without an id it is empty. The legacy client has no creation route (\<open>post\<close> is not in
  its dispatch table, and its builder treats every action alike): its tail is the id
  whenever one is given and \<open>_<action>/\<close> whenever none is. Both builders are functions
  of their arguments.
\<close>

theorem url_tail_shape:
  "(docid = Some d \<and> action_request \<noteq> ''post'' \<longrightarrow>
      xapiand_build_url c action_request index ip0 port0 nodename docid
        = ''http://'' @ url_host c ip0 port0 @ ''/'' @ url_index c index @ url_nodename nodename
            @ ''/'' @ d)
   \<and> (docid = None \<and> action_request \<noteq> ''post'' \<longrightarrow>
      xapiand_build_url c action_request index ip0 port0 nodename docid
        = ''http://'' @ url_host c ip0 port0 @ ''/'' @ url_index c index @ url_nodename nodename
            @ ''/'' @ ''_'' @ action_request @ ''/'')
   \<and> (docid = None \<and> action_request = ''post'' \<longrightarrow>
      xapiand_build_url c action_request index ip0 port0 nodename docid
        = ''http://'' @ url_host c ip0 port0 @ ''/'' @ url_index c index @ url_nodename nodename
            @ ''/'')
   \<and> (docid = Some d \<longrightarrow>
      haystack_build_url hc action_request index ip0 port0 nodename docid
        = ''http://'' @ haystack_host hc ip0 port0 @ ''/'' @ haystack_endpoint index
            @ url_nodename nodename @ ''/'' @ d)
   \<and> (docid = None \<longrightarrow>
      haystack_build_url hc action_request index ip0 port0 nodename docid
        = ''http://'' @ haystack_host hc ip0 port0 @ ''/'' @ haystack_endpoint index
            @ url_nodename nodename @ ''/'' @ ''_'' @ action_request @ ''/'')
   \<and> map_of haystack_methods ''post'' = None"
  by (simp add: xapiand_build_url_def url_tail_def haystack_build_url_def url_nodename_def
        haystack_methods_def)

text \<open>
  The claim as first stated asks for an empty tail for a creation action without an id in
  both clients. The legacy builder gives \<open>_post/\<close> for \<open>post\<close>, and \<open>_index/\<close> for
  its own writing action \<open>index\<close>.
\<close>

theorem url_tail_shape_counterexample:
  "haystack_build_url legacy ''post'' (One ''books'') None None None None
     = ''http://127.0.0.1:8880/books/_post/''
   \<and> haystack_build_url legacy ''index'' (One ''books'') None None None None
     = ''http://127.0.0.1:8880/books/_index/''
   \<and> haystack_build_url legacy ''post'' (One ''books'') None None None None
     \<noteq> ''http://127.0.0.1:8880/books/''"
  by (simp add: legacy_defs digits_8880)

theorem url_tail_shape_witness:
  "xapiand_build_url live ''get'' (One ''books'') None None None (Some ''42'')
     = ''http://127.0.0.1:8880/live/books/42''
   \<and> xapiand_build_url live ''search'' (Many [''books'', ''films'']) None None (Some ''node1'') None
     = ''http://127.0.0.1:8880/live/books,live/films@node1/_search/''
   \<and> xapiand_build_url live ''post'' (One ''books'') (Some ''10.0.0.7:9000'') None None None
     = ''http://10.0.0.7:9000/live/books/''
   \<and> haystack_build_url legacy ''get'' (One ''books'') None None None (Some ''42'')
     = ''http://127.0.0.1:8880/books/42''
   \<and> haystack_build_url legacy ''search'' (Many [''books'', ''films'']) None None (Some ''node1'') None
     = ''http://127.0.0.1:8880/books,films@node1/_search/''"
  using url_tail_shape [of "Some ''42''" "''42''" "''get''" live "One ''books''" None None None legacy]
    url_tail_shape [of None "''''" "''search''" live "Many [''books'', ''films'']" None None "Some ''node1''" legacy]
    url_tail_shape [of None "''''" "''post''" live "One ''books''" "Some ''10.0.0.7:9000''" None None legacy]
  by (simp add: live_defs legacy_defs url_host_def url_index_def url_nodename_def digits_8880 partition_colon_def)

section \<open>Requests of the action methods\<close>

lemmas request_defs =
  outgoing_def xapiand_request_def xapiand_methods_def encode_body_def no_kwargs_def
  transform_params_def dict_of_pairs_def

text \<open>
  Claim C7. The client with prefix \<open>live\<close> on the default host \<open>127.0.0.1\<close> and port
  \<open>8880\<close>, asked for \<open>search("books", query="title:dune")\<close>, sends a GET request to
  exactly \<open>http://127.0.0.1:8880/live/books/_search/\<close>, and the query parameters of that
  request contain \<open>query=title:dune\<close> and \<open>pretty=0\<close> (and \<open>volatile=0\<close>, which
  \<open>search\<close> always sets).
\<close>

theorem live_search_books:
  "outgoing w live
     (xapiand_search (One ''books'') (search_defaults\<lparr>a_query := JStr ''title:dune''\<rparr>) no_kwargs)
   = Inr \<lparr>rq_verb = GET,
          rq_url = ''http://127.0.0.1:8880/live/books/_search/'',
          rq_body = None,
          rq_params = Some [(''pretty'', JInt 0), (''volatile'', JInt 0),
                            (''query'', JStr ''title:dune'')],
          rq_stream = Some True,
          rq_extra = []\<rparr>"
  by (simp add: request_defs xapiand_search_def search_defaults_def xapiand_search_params_def
        url_defs live_defs digits_8880)

text \<open>
  Claim C8. \<open>index\<close> is \<open>put\<close>: for every index, body, id, commit flag, pretty flag and
  keyword dictionary the two methods make the same call, so the same request goes out
  (the verb \<open>PUT\<close>, the URL that \<open>_build_url\<close> gives for \<open>put\<close>, the encoded body
  and the transformed \<open>commit\<close> and \<open>pretty\<close> parameters) and the same result comes
  back, in every world.
\<close>

theorem index_is_put:
  "xapiand_index c index b docid cm pretty kw = xapiand_put c index b docid cm pretty kw
   \<and> perform w c (xapiand_index c index b docid cm pretty kw)
       = perform w c (xapiand_put c index b docid cm pretty kw)
   \<and> outgoing w c (xapiand_index c index b docid cm pretty kw)
       = outgoing w c (xapiand_put c index b docid cm pretty kw)
   \<and> outgoing w c (xapiand_put c index b docid cm pretty kw)
       = (case encode_body w b of
            Inl e \<Rightarrow> Inl e
          | Inr sent \<Rightarrow>
              Inr \<lparr>rq_verb = PUT,
                   rq_url = xapiand_build_url c ''put'' index (kw_ip kw) (kw_port kw)
                              (kw_nodename kw) docid,
                   rq_body = sent,
                   rq_params = Some (transform_params
                                 [(''commit'', commit_param c cm), (''pretty'', pretty)]),
                   rq_stream = (case kw_stream kw of None \<Rightarrow> Some False | Some s \<Rightarrow> s),
                   rq_extra = kw_extra kw\<rparr>)"
  by (simp add: xapiand_index_def xapiand_put_def outgoing_def xapiand_request_def
        xapiand_methods_def dict_of_pairs_def split: sum.splits)

section \<open>The query-parameter transform\<close>

lemma replace_dunder_head:
  "replace_dunder (b # cs) = x # xs \<Longrightarrow> x = CHR ''_'' \<Longrightarrow> b = CHR ''_''"
  by (cases cs) (auto split: if_splits)

lemma replace_dunder_clean: "\<not> has_dunder (replace_dunder k)"
proof (induction k rule: replace_dunder.induct)
  case (1 a b cs)
  show ?case
  proof (cases "a = CHR ''_'' \<and> b = CHR ''_''")
    case True
    with 1 have "\<not> has_dunder (replace_dunder cs)" by simp
    with True show ?thesis by (cases "replace_dunder cs") auto
  next
    case False
    with 1 have ih: "\<not> has_dunder (replace_dunder (b # cs))" by simp
    have "replace_dunder (b # cs) \<noteq> []" by (cases cs) auto
    then obtain x xs where r: "replace_dunder (b # cs) = x # xs"
      by (cases "replace_dunder (b # cs)") auto
    have "x = CHR ''_'' \<Longrightarrow> b = CHR ''_''"
      using replace_dunder_head [OF r] .
    with False ih r show ?thesis by auto
  qed
qed simp_all

lemma replace_dunder_same: "\<not> has_dunder k \<Longrightarrow> replace_dunder k = k"
  by (induction k rule: replace_dunder.induct) auto

text \<open>A key with a double underscore splits at the first one.\<close>

lemma has_dunder_first:
  "has_dunder k \<Longrightarrow> \<exists>xs ys. k = xs @ ''__'' @ ys \<and> \<not> has_dunder (xs @ ''_'')"
proof (induction k rule: has_dunder.induct)
  case (1 a b cs)
  show ?case
  proof (cases "a = CHR ''_'' \<and> b = CHR ''_''")
    case True
    then have "a # b # cs = [] @ ''__'' @ cs \<and> \<not> has_dunder ([] @ ''_'')" by simp
    then show ?thesis by blast
  next
    case False
    with "1.prems" have "has_dunder (b # cs)" by simp
    with "1.IH" obtain xs ys where k: "b # cs = xs @ ''__'' @ ys"
      and clean: "\<not> has_dunder (xs @ ''_'')" by blast
    have "\<not> has_dunder ((a # xs) @ ''_'')"
    proof (cases xs)
      case Nil
      with k have "b = CHR ''_''" by simp
      with False have "a \<noteq> CHR ''_''" by simp
      with Nil show ?thesis by simp
    next
      case (Cons x xs')
      with k have "x = b" by simp
      with False clean Cons show ?thesis by simp
    qed
    moreover from k have "a # b # cs = (a # xs) @ ''__'' @ ys" by simp
    ultimately show ?thesis by blast
  qed
qed simp_all

text \<open>The first double underscore of a key becomes a dot; what stands before it is kept, and
  the replacement goes on behind it.\<close>

lemma replace_dunder_first:
  "\<not> has_dunder (xs @ ''_'') \<Longrightarrow>
   replace_dunder (xs @ ''__'' @ ys) = xs @ ''.'' @ replace_dunder ys"
proof (induction xs)
  case Nil
  show ?case by simp
next
  case (Cons a xs)
  show ?case
  proof (cases xs)
    case Nil
    with Cons.prems have "a \<noteq> CHR ''_''" by simp
    with Nil show ?thesis by simp
  next
    case (Cons b xs')
    with Cons.prems have ab: "\<not> (a = CHR ''_'' \<and> b = CHR ''_'')"
      and rest: "\<not> has_dunder (xs @ ''_'')"
      by auto
    from Cons.IH [OF rest] ab Cons show ?thesis by simp
  qed
qed

lemma set_dict_set: "set (dict_set d k v) \<subseteq> insert (k, v) (set d)"
  by (induction d) (auto split: if_splits)

lemma set_foldl_dict_set:
  "set (foldl (\<lambda>d (k, v). dict_set d k v) d0 ps) \<subseteq> set d0 \<union> set ps"
proof (induction ps arbitrary: d0)
  case Nil
  show ?case by simp
next
  case (Cons p ps)
  obtain k v where p: "p = (k, v)" by (cases p)
  have "set (foldl (\<lambda>d (k, v). dict_set d k v) (dict_set d0 k v) ps)
          \<subseteq> set (dict_set d0 k v) \<union> set ps"
    by (rule Cons.IH)
  also have "\<dots> \<subseteq> set d0 \<union> set (p # ps)"
    using set_dict_set [of d0 k v] by (auto simp: p)
  finally show ?case by (simp add: p)
qed

lemma set_dict_of_pairs: "set (dict_of_pairs ps) \<subseteq> set ps"
  using set_foldl_dict_set [of "[]" ps] by (simp add: dict_of_pairs_def)

lemma keys_dict_of_pairs: "fst ` set (dict_of_pairs ps) = fst ` set ps"
proof -
  have "dom (map_of (dict_of_pairs ps)) = dom (map_of (rev ps))"
    by (simp add: map_of_dict_of_pairs)
  then show ?thesis by (simp add: dom_map_of_conv_image_fst)
qed

lemma transform_params_keys:
  "fst ` set (transform_params ps) = replace_dunder ` fst ` set ps"
  by (force simp: transform_params_def keys_dict_of_pairs image_iff)

lemma transform_params_entry:
  assumes "(k', v') \<in> set (transform_params ps)"
  shows "\<exists>k v. (k, v) \<in> set ps \<and> k' = replace_dunder k \<and> v' = coerce_bool v"
proof -
  from assms have "(k', v') \<in> set (map (\<lambda>(k, v). (replace_dunder k, coerce_bool v)) ps)"
    unfolding transform_params_def by (rule subsetD [OF set_dict_of_pairs])
  then show ?thesis by auto
qed

lemma coerce_bool_no_bool: "coerce_bool v \<noteq> JBool b"
  by (cases v) auto

lemma transform_params_distinct:
  assumes "distinct (map (\<lambda>kv. replace_dunder (fst kv)) ps)"
  shows "transform_params ps = map (\<lambda>(k, v). (replace_dunder k, coerce_bool v)) ps"
proof -
  have "map fst (map (\<lambda>(k, v). (replace_dunder k, coerce_bool v)) ps)
          = map (\<lambda>kv. replace_dunder (fst kv)) ps"
    by (induction ps) auto
  with assms have "distinct (map fst (map (\<lambda>(k, v). (replace_dunder k, coerce_bool v)) ps))"
    by (simp only:)
  then show ?thesis
    unfolding transform_params_def by (rule dict_of_pairs_distinct)
qed

text \<open>
  Claim C6. Both request dispatchers hand the caller's query parameters to the
  transport through the same transform. Its keys are the caller's keys after
  \<open>replace('__', '.')\<close>, which leaves no double underscore behind, changes nothing
  in a key that has none, and otherwise puts a dot for the first double underscore, keeps
  the characters before it and goes on in the same way behind it (a key with a double
  underscore always splits in this way, so that every double underscore, read from the
  left, becomes a dot and every other character stays); every entry of the result is an entry of the caller's mapping
  with its key so replaced and its value coerced; the coercion turns \<open>True\<close> into the
  integer 1 and \<open>False\<close> into the integer 0 and leaves every other value as it is, so
  that no boolean reaches the transport; and when the replaced keys do not collide, every
  entry arrives, in order.
\<close>

theorem query_param_transform:
  "(xapiand_request w c a i kw = Inr rq \<longrightarrow>
      rq_params rq = map_option transform_params (kw_params kw))
   \<and> (haystack_request w hc a i kw = Inr rq' \<longrightarrow>
      rq_params rq' = map_option transform_params (kw_params kw))
   \<and> fst ` set (transform_params ps) = replace_dunder ` fst ` set ps
   \<and> ((k', v') \<in> set (transform_params ps) \<longrightarrow>
        (\<exists>k v. (k, v) \<in> set ps \<and> k' = replace_dunder k \<and> v' = coerce_bool v))
   \<and> (distinct (map (\<lambda>kv. replace_dunder (fst kv)) ps) \<longrightarrow>
        transform_params ps = map (\<lambda>(k, v). (replace_dunder k, coerce_bool v)) ps)
   \<and> \<not> has_dunder (replace_dunder key)
   \<and> (\<not> has_dunder key \<longrightarrow> replace_dunder key = key)
   \<and> (\<not> has_dunder (xs @ ''_'') \<longrightarrow>
        replace_dunder (xs @ ''__'' @ ys) = xs @ ''.'' @ replace_dunder ys)
   \<and> (has_dunder key \<longrightarrow>
        (\<exists>pre post. key = pre @ ''__'' @ post \<and> \<not> has_dunder (pre @ ''_'')
           \<and> replace_dunder key = pre @ ''.'' @ replace_dunder post))
   \<and> coerce_bool (JBool True) = JInt 1
   \<and> coerce_bool (JBool False) = JInt 0
   \<and> ((\<forall>b. x \<noteq> JBool b) \<longrightarrow> coerce_bool x = x)
   \<and> (k', JBool b') \<notin> set (transform_params ps)"
proof -
  have 1: "xapiand_request w c a i kw = Inr rq \<longrightarrow>
      rq_params rq = map_option transform_params (kw_params kw)"
    by (auto simp: xapiand_request_def split: option.splits sum.splits)
  have 2: "haystack_request w hc a i kw = Inr rq' \<longrightarrow>
      rq_params rq' = map_option transform_params (kw_params kw)"
    by (auto simp: haystack_request_def split: option.splits sum.splits)
  have 3: "(\<forall>b. x \<noteq> JBool b) \<longrightarrow> coerce_bool x = x"
    by (cases x) auto
  have 5: "has_dunder key \<longrightarrow>
        (\<exists>pre post. key = pre @ ''__'' @ post \<and> \<not> has_dunder (pre @ ''_'')
           \<and> replace_dunder key = pre @ ''.'' @ replace_dunder post)"
    using has_dunder_first [of key] replace_dunder_first by blast
  have 4: "(k', JBool b') \<notin> set (transform_params ps)"
    using transform_params_entry [of k' "JBool b'" ps] coerce_bool_no_bool by metis
  show ?thesis
    using 1 2 3 4 5 transform_params_keys [of ps] transform_params_entry [of k' v' ps]
      transform_params_distinct [of ps] replace_dunder_clean [of key]
      replace_dunder_same [of key] replace_dunder_first [of xs ys]
    by simp
qed

theorem query_param_transform_witness:
  "distinct (map (\<lambda>kv. replace_dunder (fst kv))
     [(''a__b'', JBool True), (''x___y'', JBool False), (''limit'', JInt 10)])
   \<and> transform_params [(''a__b'', JBool True), (''x___y'', JBool False), (''limit'', JInt 10)]
     = [(''a.b'', JInt 1), (''x._y'', JInt 0), (''limit'', JInt 10)]
   \<and> \<not> has_dunder ''limit''
   \<and> replace_dunder ''limit'' = ''limit''
   \<and> \<not> has_dunder (''a'' @ ''_'')
   \<and> has_dunder ''a__b__c''
   \<and> replace_dunder ''a__b__c'' = ''a.b.c''
   \<and> xapiand_request (answering (bare 200)) live ''stats'' (One ''books'')
        (no_kwargs\<lparr>kw_params := Some [(''pretty'', JBool True)]\<rparr>)
     = Inr \<lparr>rq_verb = GET, rq_url = ''http://127.0.0.1:8880/live/books/_stats/'',
            rq_body = None, rq_params = Some [(''pretty'', JInt 1)],
            rq_stream = Some False, rq_extra = []\<rparr>"
proof -
  let ?ps = "[(''a__b'', JBool True), (''x___y'', JBool False), (''limit'', JInt 10)]"
  have d: "distinct (map (\<lambda>kv. replace_dunder (fst kv)) ?ps)"
    by simp
  have n: "\<not> has_dunder ''limit''"
    by simp
  have rq: "xapiand_request (answering (bare 200)) live ''stats'' (One ''books'')
        (no_kwargs\<lparr>kw_params := Some [(''pretty'', JBool True)]\<rparr>)
     = Inr \<lparr>rq_verb = GET, rq_url = ''http://127.0.0.1:8880/live/books/_stats/'',
            rq_body = None, rq_params = Some [(''pretty'', JInt 1)],
            rq_stream = Some False, rq_extra = []\<rparr>"
    by (simp add: request_defs answering_def url_defs live_defs digits_8880)
  note t = query_param_transform [of "answering (bare 200)" live "''stats''" "One ''books''"
      "no_kwargs\<lparr>kw_params := Some [(''pretty'', JBool True)]\<rparr>"
      "\<lparr>rq_verb = GET, rq_url = ''http://127.0.0.1:8880/live/books/_stats/'',
            rq_body = None, rq_params = Some [(''pretty'', JInt 1)],
            rq_stream = Some False, rq_extra = []\<rparr>"
      legacy
      "\<lparr>rq_verb = GET, rq_url = ''http://127.0.0.1:8880/books/_stats/'',
            rq_body = None, rq_params = Some [(''pretty'', JInt 1)],
            rq_stream = Some False, rq_extra = []\<rparr>"
      ?ps "''a.b''" "JInt 1" "''limit''" "''a''" "''b__c''" "JInt 10" True]
  have m: "\<not> has_dunder (''a'' @ ''_'')"
    by simp
  from t d have "transform_params ?ps = map (\<lambda>(k, v). (replace_dunder k, coerce_bool v)) ?ps"
    by blast
  moreover from t n have "replace_dunder ''limit'' = ''limit''"
    by blast
  moreover from t m have "replace_dunder (''a'' @ ''__'' @ ''b__c'') = ''a'' @ ''.'' @ replace_dunder ''b__c''"
    by blast
  ultimately show ?thesis
    using d n m rq by simp
qed

section \<open>Optional parameters that are left out\<close>

lemma replace_dunder_no_dot:
  "replace_dunder k = k' \<Longrightarrow> CHR ''.'' \<notin> set k' \<Longrightarrow> k = k'"
proof (induction k arbitrary: k' rule: replace_dunder.induct)
  case (1 a b cs)
  then show ?case by (auto split: if_splits)
qed simp_all

lemma transform_params_absent:
  assumes "CHR ''.'' \<notin> set k'" and "map_of ps k' = None"
  shows "map_of (transform_params ps) k' = None"
proof (rule ccontr)
  assume "map_of (transform_params ps) k' \<noteq> None"
  then obtain v' where "(k', v') \<in> set (transform_params ps)"
    by (auto dest: map_of_SomeD)
  then obtain k v where kv: "(k, v) \<in> set ps" and k': "k' = replace_dunder k"
    using transform_params_entry by blast
  from k' assms(1) have "k = k'"
    using replace_dunder_no_dot by blast
  with kv have "k' \<in> fst ` set ps"
    by force
  with assms(2) show False
    by (simp add: map_of_eq_None_iff)
qed

lemma map_of_if_dict_set:
  "map_of (if given then dict_set d k v else d) k' =
     (if given \<and> k = k' then Some v else map_of d k')"
  by (simp add: map_of_dict_set)

lemma search_params_lookup:
  "map_of (xapiand_search_params a) ''query'' = (if a_query a \<noteq> JNull then Some (a_query a) else None)"
  "map_of (xapiand_search_params a) ''partial'' = (if a_partial a \<noteq> JNull then Some (a_partial a) else None)"
  "map_of (xapiand_search_params a) ''terms'' = (if a_terms a \<noteq> JNull then Some (a_terms a) else None)"
  "map_of (xapiand_search_params a) ''offset'' = (if a_offset a \<noteq> JNull then Some (a_offset a) else None)"
  "map_of (xapiand_search_params a) ''limit'' = (if a_limit a \<noteq> JNull then Some (a_limit a) else None)"
  "map_of (xapiand_search_params a) ''sort'' = (if a_sort a \<noteq> JNull then Some (a_sort a) else None)"
  "map_of (xapiand_search_params a) ''facets'' = (if a_facets a \<noteq> JNull then Some (a_facets a) else None)"
  "map_of (xapiand_search_params a) ''language'' = (if a_language a \<noteq> JNull then Some (a_language a) else None)"
  by (simp_all add: xapiand_search_params_def Let_def map_of_if_dict_set map_of_dict_set
        dict_of_pairs_def del: dict_set.simps)

text \<open>
  The newer client keeps the promise of claim C2: a parameter whose argument is
  \<open>None\<close> is not a key of the query parameters that \<open>search\<close> or \<open>facets\<close> send, and
  the other methods send none of the eight names at all.
\<close>

lemma xapiand_omits_unset:
  assumes "optional_value a name = Some JNull"
  shows "sent_param (outgoing w c (xapiand_search index a kw)) name = None"
    and "sent_param (outgoing w c (xapiand_facets index a kw)) name = None"
proof -
  from assms have name: "name \<in> set [''query'', ''partial'', ''terms'', ''offset'', ''limit'',
      ''sort'', ''facets'', ''language'']"
    by (auto simp: optional_value_def split: if_splits)
  from assms have absent: "map_of (xapiand_search_params a) name = None"
    using name by (auto simp: optional_value_def search_params_lookup split: if_splits)
  from name have nodot: "CHR ''.'' \<notin> set name"
    by auto
  have "map_of (transform_params (xapiand_search_params a)) name = None"
    using transform_params_absent [OF nodot absent] .
  then show "sent_param (outgoing w c (xapiand_search index a kw)) name = None"
    and "sent_param (outgoing w c (xapiand_facets index a kw)) name = None"
    by (auto simp: sent_param_def outgoing_def xapiand_request_def xapiand_search_def
          xapiand_facets_def split: sum.splits option.splits)
qed

lemma xapiand_other_methods_send_none:
  assumes "name \<in> set [''query'', ''partial'', ''terms'', ''offset'', ''limit'', ''sort'',
      ''facets'', ''language'']"
  shows "sent_param (outgoing w c (xapiand_stats index pretty kw)) name = None"
    and "sent_param (outgoing w c (xapiand_head index docid pretty kw)) name = None"
    and "sent_param (outgoing w c (xapiand_get index docid dflt pretty volatile kw)) name = None"
    and "sent_param (outgoing w c (xapiand_delete c index docid cm pretty kw)) name = None"
    and "sent_param (outgoing w c (xapiand_post c index b cm pretty kw)) name = None"
    and "sent_param (outgoing w c (xapiand_put c index b docid cm pretty kw)) name = None"
    and "sent_param (outgoing w c (xapiand_patch c index docid b cm pretty kw)) name = None"
proof -
  from assms have nodot: "CHR ''.'' \<notin> set name"
    by auto
  have 1: "map_of (transform_params (dict_of_pairs [(''pretty'', pretty)])) name = None"
    using assms by (intro transform_params_absent [OF nodot]) (auto simp: dict_of_pairs_def)
  have 2: "map_of (transform_params (dict_of_pairs [(''pretty'', pretty), (''volatile'', volatile)])) name = None"
    using assms by (intro transform_params_absent [OF nodot]) (auto simp: dict_of_pairs_def)
  have 3: "map_of (transform_params (dict_of_pairs [(''commit'', commit_param c cm), (''pretty'', pretty)])) name = None"
    using assms by (intro transform_params_absent [OF nodot]) (auto simp: dict_of_pairs_def)
  show "sent_param (outgoing w c (xapiand_stats index pretty kw)) name = None"
    using 1 by (auto simp: sent_param_def outgoing_def xapiand_request_def xapiand_stats_def
          split: sum.splits option.splits)
  show "sent_param (outgoing w c (xapiand_head index docid pretty kw)) name = None"
    using 1 by (auto simp: sent_param_def outgoing_def xapiand_request_def xapiand_head_def
          split: sum.splits option.splits)
  show "sent_param (outgoing w c (xapiand_get index docid dflt pretty volatile kw)) name = None"
    using 2 by (auto simp: sent_param_def outgoing_def xapiand_request_def xapiand_get_def
          split: sum.splits option.splits)
  show "sent_param (outgoing w c (xapiand_delete c index docid cm pretty kw)) name = None"
    using 3 by (auto simp: sent_param_def outgoing_def xapiand_request_def xapiand_delete_def
          split: sum.splits option.splits)
  show "sent_param (outgoing w c (xapiand_post c index b cm pretty kw)) name = None"
    using 3 by (auto simp: sent_param_def outgoing_def xapiand_request_def xapiand_post_def
          split: sum.splits option.splits)
  show "sent_param (outgoing w c (xapiand_put c index b docid cm pretty kw)) name = None"
    using 3 by (auto simp: sent_param_def outgoing_def xapiand_request_def xapiand_put_def
          split: sum.splits option.splits)
  show "sent_param (outgoing w c (xapiand_patch c index docid b cm pretty kw)) name = None"
    using 3 by (auto simp: sent_param_def outgoing_def xapiand_request_def xapiand_patch_def
          split: sum.splits option.splits)
qed

text \<open>
  Claim C2. The claim asks that no optional parameter the caller left out appears in the
  outgoing query parameters, in both clients. The legacy client tests \<open>is None\<close>
  where the newer one tests \<open>is not None\<close>: \<open>search("books", query="title:dune")\<close> on
  the legacy client sends the seven parameters that were left out, each with the value
  \<open>None\<close>, and does not send the query that was given.
\<close>

theorem legacy_search_sends_unset:
  "haystack_outgoing w legacy
     (haystack_search (One ''books'') (search_defaults\<lparr>a_query := JStr ''title:dune''\<rparr>) no_kwargs)
   = Inr \<lparr>rq_verb = GET,
          rq_url = ''http://127.0.0.1:8880/books/_search/'',
          rq_body = None,
          rq_params = Some [(''pretty'', JInt 0), (''partial'', JNull), (''terms'', JNull),
                            (''offset'', JNull), (''limit'', JNull), (''sort'', JNull),
                            (''facets'', JNull), (''language'', JNull)],
          rq_stream = Some True,
          rq_extra = []\<rparr>"
  by (simp add: haystack_outgoing_def haystack_request_def haystack_methods_def encode_body_def
        no_kwargs_def transform_params_def dict_of_pairs_def haystack_search_def
        search_defaults_def haystack_search_params_def legacy_defs digits_8880)

section \<open>The status policy\<close>

lemma scan_string_error: "scan_string acc s = Inl e \<Longrightarrow> \<not> is_http_error e"
  by (induction acc s rule: scan_string.induct) (auto split: if_splits)

lemma scan_int_error: "scan_int s = Inl e \<Longrightarrow> \<not> is_http_error e"
  by (auto simp: scan_int_def Let_def split: if_splits)

lemma parse_error:
  "parse_value n s = Inl e \<Longrightarrow> \<not> is_http_error e"
  "parse_members n kvs s = Inl e \<Longrightarrow> \<not> is_http_error e"
  "parse_elements n vs s = Inl e \<Longrightarrow> \<not> is_http_error e"
proof (induction n s and n kvs s and n vs s arbitrary: e and e and e
    rule: parse_value_parse_members_parse_elements.induct)
  case (1 s)
  then show ?case by simp
next
  case (2 n s)
  then show ?case
    by (auto split: list.splits if_splits sum.splits dest: scan_string_error scan_int_error)
next
  case (3 acc s)
  then show ?case by simp
next
  case (4 n acc s)
  then show ?case
    by (auto split: list.splits if_splits sum.splits dest: scan_string_error)
next
  case (5 acc s)
  then show ?case by simp
next
  case (6 n acc s)
  then show ?case
    by (auto split: list.splits if_splits sum.splits)
qed

lemma json_loads_error: "json_loads s = Inl e \<Longrightarrow> \<not> is_http_error e"
  by (auto simp: json_loads_def simp del: parse_value.simps split: sum.splits if_splits
        dest: parse_error(1))

lemma results_next_error: "results_next j g = (Raise e, g') \<Longrightarrow> \<not> is_http_error e"
proof (induction j g rule: results_next.induct)
  case (1 is_json)
  then show ?case by simp
next
  case (2 is_json ls)
  then show ?case by (auto split: if_splits)
next
  case (3 is_json ls)
  then show ?case by (auto split: if_splits)
next
  case (4 is_json line c ls)
  then show ?case
    by (auto split: if_splits option.splits sum.splits dest: json_loads_error)
qed

lemma py_dict_error: "py_dict x = Inl e \<Longrightarrow> \<not> is_http_error e"
  by (cases x) (auto split: if_splits)

lemma lift_keys_error: "lift_keys kvs r = Inl e \<Longrightarrow> \<not> is_http_error e"
  by (induction kvs r rule: lift_keys.induct) (auto split: if_splits)

lemma Result_error: "Result x = Inl e \<Longrightarrow> \<not> is_http_error e"
  by (auto simp: Result_def split: sum.splits dest: py_dict_error lift_keys_error)

lemma lift_query_error: "lift_query kvs a = Inl e \<Longrightarrow> \<not> is_http_error e"
  by (induction kvs a rule: lift_query.induct) (auto split: if_splits)

lemma Results_error: "Results meta src = Inl e \<Longrightarrow> \<not> is_http_error e"
  by (auto simp: Results_def split: json.splits sum.splits
        dest: py_dict_error lift_query_error)

lemma Results_next_error: "fst (Results_next r) = Inl e \<Longrightarrow> \<not> is_http_error e"
  by (auto simp: Results_next_def split: source.splits prod.splits step.splits list.splits
        dest: results_next_error Result_error)

lemma wrap_results_error: "wrap_results key res meta src = Inl e \<Longrightarrow> \<not> is_http_error e"
  by (auto simp: wrap_results_def split: sum.splits if_splits
        dest: Results_error Results_next_error)

lemma decode_response_error: "decode_response key stream res = Inl e \<Longrightarrow> \<not> is_http_error e"
  by (auto simp: decode_response_def Let_def
        split: if_splits prod.splits step.splits sum.splits
        dest: results_next_error wrap_results_error json_loads_error)

lemma haystack_first_error: "haystack_first j ls = Inl e \<Longrightarrow> \<not> is_http_error e"
  by (induction j ls rule: haystack_first.induct)
     (auto split: if_splits sum.splits dest: json_loads_error)

lemma haystack_ok_error:
  "status_code res = 200 \<Longrightarrow> haystack_response a key stream res = Inl e \<Longrightarrow>
   \<not> is_http_error e"
  by (auto simp: haystack_response_def Let_def
        split: if_splits option.splits sum.splits
        dest: haystack_first_error json_loads_error)

lemma send_request_unfold:
  assumes "xapiand_request w c a i kw = Inr rq" and "http w rq = Inr res"
  shows "\<exists>method stream key.
           map_of xapiand_methods a = Some (method, stream, key)
           \<and> xapiand_send_request w c a i kw
               = xapiand_response a key (rq_stream rq) (kw_default kw) res"
  using assms
  by (auto simp: xapiand_send_request_def xapiand_request_def split: option.splits)

lemma haystack_send_request_unfold:
  assumes "haystack_request w c a i kw = Inr rq" and "http w rq = Inr res"
  shows "\<exists>method stream key.
           map_of haystack_methods a = Some (method, stream, key)
           \<and> haystack_send_request w c a i kw
               = haystack_response a key (rq_stream rq) res"
  using assms
  by (auto simp: haystack_send_request_def haystack_request_def split: option.splits)

text \<open>
  Claim C1. When the server answers 404 to a request of \<open>_send_request\<close>: for the
  actions \<open>get\<close>, \<open>patch\<close> and \<open>delete\<close> the call raises \<open>DoesNotExist\<close> if the caller
  gave no default and returns exactly the caller's default, raising nothing, if one was
  given; for every other action the default plays no part and the call raises the
  transport's \<open>HTTPError\<close> for the status 404.
\<close>

theorem not_found_policy:
  assumes "xapiand_request w c a i kw = Inr rq"
    and "http w rq = Inr res"
    and "status_code res = 404"
  shows "(a \<in> set [''get'', ''patch'', ''delete''] \<and> kw_default kw = None \<longrightarrow>
            xapiand_send_request w c a i kw = Inl DoesNotExist)
       \<and> (a \<in> set [''get'', ''patch'', ''delete''] \<and> kw_default kw = Some d \<longrightarrow>
            xapiand_send_request w c a i kw = Inr (Default d))
       \<and> (a \<notin> set [''get'', ''patch'', ''delete''] \<longrightarrow>
            xapiand_send_request w c a i kw = Inl (HTTPError 404))"
proof -
  from send_request_unfold [OF assms(1,2)] obtain key where
    "xapiand_send_request w c a i kw = xapiand_response a key (rq_stream rq) (kw_default kw) res"
    by blast
  with assms(3) show ?thesis
    by (auto simp: xapiand_response_def raise_for_status_def)
qed

lemmas send_defs =
  xapiand_send_request_def xapiand_request_def xapiand_methods_def encode_body_def
  no_kwargs_def answering_def xapiand_response_def raise_for_status_def

theorem not_found_policy_witness:
  "xapiand_send_request (answering (bare 404)) live ''get'' (One ''books'') (for_doc None)
     = Inl DoesNotExist
   \<and> xapiand_send_request (answering (bare 404)) live ''delete'' (One ''books'')
        (for_doc (Some (JStr ''gone'')))
     = Inr (Default (JStr ''gone''))
   \<and> xapiand_send_request (answering (bare 404)) live ''head'' (One ''books'')
        (for_doc (Some (JStr ''gone'')))
     = Inl (HTTPError 404)"
proof -
  let ?w = "answering (bare 404)"
  have rq: "\<And>a dflt. a \<in> set [''get'', ''delete'', ''head''] \<Longrightarrow>
      \<exists>rq. xapiand_request ?w live a (One ''books'') (for_doc dflt) = Inr rq"
    by (auto simp: xapiand_request_def xapiand_methods_def encode_body_def for_doc_def
          no_kwargs_def)
  have ht: "\<And>rq. http ?w rq = Inr (bare 404)"
    by (simp add: answering_def)
  have st: "status_code (bare 404) = 404"
    by (simp add: bare_def)
  obtain r1 where r1: "xapiand_request ?w live ''get'' (One ''books'') (for_doc None) = Inr r1"
    using rq [of "''get''" None] by auto
  obtain r2 where r2: "xapiand_request ?w live ''delete'' (One ''books'')
      (for_doc (Some (JStr ''gone''))) = Inr r2"
    using rq [of "''delete''" "Some (JStr ''gone'')"] by auto
  obtain r3 where r3: "xapiand_request ?w live ''head'' (One ''books'')
      (for_doc (Some (JStr ''gone''))) = Inr r3"
    using rq [of "''head''" "Some (JStr ''gone'')"] by auto
  show ?thesis
    using not_found_policy [OF r1 ht st, of "JStr ''gone''"]
      not_found_policy [OF r2 ht st, of "JStr ''gone''"]
      not_found_policy [OF r3 ht st, of "JStr ''gone''"]
    by (simp add: for_doc_def no_kwargs_def)
qed

text \<open>
  Claim C5, amended. Once the server has answered: the newer client raises the
  transport's \<open>HTTPError\<close>, carrying the status, for every status from 400 to 599 except
  a 404 on \<open>get\<close>, \<open>patch\<close> or \<open>delete\<close>, and for no status below 400 or above 599
  (in particular for no 2xx status); the legacy client raises an \<open>HTTPError\<close> whose
  message \<open>Return code is <status>\<close> carries the status for every status other than 200
  (404 and the other 2xx statuses included), and none for 200.
\<close>

theorem status_policy:
  assumes "xapiand_request w c a i kw = Inr rq"
    and "http w rq = Inr res"
    and "haystack_request w' hc a' i' kw' = Inr rq'"
    and "http w' rq' = Inr res'"
  shows "(400 \<le> status_code res \<and> status_code res < 600
            \<and> \<not> (status_code res = 404 \<and> a \<in> set [''get'', ''patch'', ''delete'']) \<longrightarrow>
            xapiand_send_request w c a i kw = Inl (HTTPError (status_code res)))
       \<and> (status_code res < 400 \<or> 600 \<le> status_code res \<longrightarrow>
            (\<forall>e. xapiand_send_request w c a i kw = Inl e \<longrightarrow> \<not> is_http_error e))
       \<and> (status_code res' \<noteq> 200 \<longrightarrow>
            haystack_send_request w' hc a' i' kw'
              = Inl (HTTPErrorMsg (''Return code is '' @ str_of_int (status_code res'))))
       \<and> (status_code res' = 200 \<longrightarrow>
            (\<forall>e. haystack_send_request w' hc a' i' kw' = Inl e \<longrightarrow> \<not> is_http_error e))"
proof -
  from send_request_unfold [OF assms(1,2)] obtain key where new:
    "xapiand_send_request w c a i kw = xapiand_response a key (rq_stream rq) (kw_default kw) res"
    by blast
  from haystack_send_request_unfold [OF assms(3,4)] obtain key' where old:
    "haystack_send_request w' hc a' i' kw' = haystack_response a' key' (rq_stream rq') res'"
    by blast
  have 1: "400 \<le> status_code res \<and> status_code res < 600
            \<and> \<not> (status_code res = 404 \<and> a \<in> set [''get'', ''patch'', ''delete'']) \<longrightarrow>
            xapiand_send_request w c a i kw = Inl (HTTPError (status_code res))"
    by (auto simp: new xapiand_response_def raise_for_status_def)
  have 2: "status_code res < 400 \<or> 600 \<le> status_code res \<longrightarrow>
            (\<forall>e. xapiand_send_request w c a i kw = Inl e \<longrightarrow> \<not> is_http_error e)"
    by (auto simp: new xapiand_response_def raise_for_status_def dest: decode_response_error)
  have 3: "status_code res' \<noteq> 200 \<longrightarrow>
            haystack_send_request w' hc a' i' kw'
              = Inl (HTTPErrorMsg (''Return code is '' @ str_of_int (status_code res')))"
    by (simp add: old haystack_response_def)
  have 4: "status_code res' = 200 \<longrightarrow>
            (\<forall>e. haystack_send_request w' hc a' i' kw' = Inl e \<longrightarrow> \<not> is_http_error e)"
    by (auto simp: old dest: haystack_ok_error)
  from 1 2 3 4 show ?thesis by blast
qed

text \<open>
  The claim as first stated fails on both sides: the legacy client raises for the success
  status 201, and the newer client raises nothing for the status 304, which is neither a
  2xx status nor a 404.
\<close>

theorem status_policy_counterexample:
  "haystack_send_request (answering (bare 201)) legacy ''index'' (One ''books'') (for_doc None)
     = Inl (HTTPErrorMsg ''Return code is 201'')
   \<and> xapiand_send_request (answering (bare 304)) live ''head'' (One ''books'') (for_doc None)
     = Inr (OneResult \<lparr>entries = [], attrs = []\<rparr>)"
  by (simp add: haystack_send_request_def haystack_request_def haystack_methods_def
        haystack_response_def send_defs for_doc_def bare_def str_of_int_def
        digits_of_nat.simps digit_char_def decode_response_def content_type_def
        header_find_def wrap_results_def Results_def dict_get_def Results_next_def
        Result_def set_headers_def)

theorem status_policy_witness:
  "xapiand_send_request (answering (bare 503)) live ''search'' (One ''books'') (for_doc None)
     = Inl (HTTPError 503)
   \<and> xapiand_send_request (answering (bare 404)) live ''search'' (One ''books'') (for_doc None)
     = Inl (HTTPError 404)
   \<and> haystack_send_request (answering (bare 404)) legacy ''get'' (One ''books'') (for_doc None)
     = Inl (HTTPErrorMsg ''Return code is 404'')
   \<and> haystack_send_request (answering (bare 201)) legacy ''index'' (One ''books'') (for_doc None)
     = Inl (HTTPErrorMsg ''Return code is 201'')"
proof -
  have rq: "\<And>n a. a \<in> set [''search'', ''get'', ''index''] \<Longrightarrow>
      a \<noteq> ''index'' \<Longrightarrow>
      \<exists>rq. xapiand_request (answering (bare n)) live a (One ''books'') (for_doc None) = Inr rq"
    by (auto simp: xapiand_request_def xapiand_methods_def encode_body_def for_doc_def
          no_kwargs_def)
  have hrq: "\<And>n a. a \<in> set [''search'', ''get'', ''index''] \<Longrightarrow>
      \<exists>rq. haystack_request (answering (bare n)) legacy a (One ''books'') (for_doc None) = Inr rq"
    by (auto simp: haystack_request_def haystack_methods_def encode_body_def for_doc_def
          no_kwargs_def)
  have ht: "\<And>n rq. http (answering (bare n)) rq = Inr (bare n)"
    by (simp add: answering_def)
  obtain n1 where n1: "xapiand_request (answering (bare 503)) live ''search'' (One ''books'')
      (for_doc None) = Inr n1"
    using rq [of "''search''" 503] by auto
  obtain n2 where n2: "xapiand_request (answering (bare 404)) live ''search'' (One ''books'')
      (for_doc None) = Inr n2"
    using rq [of "''search''" 404] by auto
  obtain h1 where h1: "haystack_request (answering (bare 404)) legacy ''get'' (One ''books'')
      (for_doc None) = Inr h1"
    using hrq [of "''get''" 404] by auto
  obtain h2 where h2: "haystack_request (answering (bare 201)) legacy ''index'' (One ''books'')
      (for_doc None) = Inr h2"
    using hrq [of "''index''" 201] by auto
  have s404: "str_of_int 404 = ''404''" and s201: "str_of_int 201 = ''201''"
    by (simp_all add: str_of_int_def digits_of_nat.simps digit_char_def)
  show ?thesis
    using status_policy [OF n1 ht h1 ht] status_policy [OF n2 ht h2 ht]
    by (simp add: bare_def s404 s201)
qed

section \<open>Streamed responses\<close>


lemma results_next_Finished:
  "results_next j g = (Stop, g') \<Longrightarrow> g' = Finished"
  "results_next j g = (Raise e, g') \<Longrightarrow> g' = Finished"
  by (induction j g rule: results_next.induct;
      auto split: if_splits option.splits sum.splits)+

text \<open>
  The generator is single-pass: once it has stopped, or has been ended by an exception,
  every later \<open>next\<close> stops at once; nothing rewinds it.
\<close>

lemma results_next_stays_stopped:
  "results_next j g = (Stop, g') \<Longrightarrow> results_next j g' = (Stop, g')"
  "results_next j g = (Raise e, g') \<Longrightarrow> results_next j g' = (Stop, g')"
  by (auto dest: results_next_Finished)
















lemma lift_query_keys:
  "lift_query kvs a = Inr a' \<Longrightarrow> map_of a ''total_count'' = None \<Longrightarrow>
   map_of a' ''total_count'' = None"
proof (induction kvs a rule: lift_query.induct)
  case (1 a)
  then show ?case by simp
next
  case (2 k v kvs a)
  show ?case
  proof (cases "k = []")
    case True
    with 2 show ?thesis by simp
  next
    case False
    then obtain x xs where k: "k = x # xs" by (cases k) auto
    show ?thesis
    proof (cases "x = CHR ''_''")
      case True
      then have "map_of (dict_set a k v) ''total_count'' = None"
        using "2.prems"(2) by (simp add: map_of_dict_set k)
      with 2 True k show ?thesis by simp
    next
      case False
      with 2 k show ?thesis by simp
    qed
  qed
qed

text \<open>
  \<open>Results.__init__\<close> stores the metadata fields under their own names, which begin
  with an underscore, and \<open>__len__\<close> reads the attribute \<open>total_count\<close>: whatever the
  metadata record says, the length of the wrapper built from it is 0.
\<close>

lemma Results_len_ignores_meta:
  assumes "Results meta src = Inr r"
  shows "Results_len r = Inr 0"
proof -
  from assms obtain q a where "lift_query q [] = Inr a" and "r_attrs r = a"
    by (auto simp: Results_def split: json.splits sum.splits)
  then have "map_of (r_attrs r) ''total_count'' = None"
    using lift_query_keys [of q "[]" a] by simp
  then show ?thesis
    by (simp add: Results_len_def dict_get_def)
qed


end
